theory Spec2Isabelle
  imports Complex_Main "HOL-Library.FSet" "HOL-Library.AList" "HOL-Library.Log_Nat"
begin

section \<open>Marker gene overlap: \<^verbatim>\<open>scanpy/tools/_marker_gene_overlap.py\<close>\<close>

text \<open>
  The module compares two dictionaries of gene sets: the reference markers given by the
  caller and the data-derived markers read from a \<open>rank_genes_groups\<close> result in
  \<open>adata.uns\<close>. A Python \<open>set\<close> of gene names is a finite set of strings; a \<open>dict\<close> is
  an association list in insertion order, each key once, and iterating a dict visits its
  items in that order. The entries of the matrices are float64 values, written as the
  rationals they denote. The counts and their sums are integers, which float64 holds
  exactly up to \<open>2 ^ 53\<close>. The division of numpy (lines 194 and 199) rounds its
  quotient to the nearest float64, and what numpy adds to the finite values (\<open>nan\<close>,
  \<open>inf\<close>) is a type of its own. For the two metrics that divide Python ints the
  quotient is kept unrounded: rounding is monotone and fixes 0 and 1, so the order and
  the range of the entries are those of the quotients.
\<close>

subsection \<open>Data model\<close>

datatype py_error =
    ValueError string
  | KeyError string
  | TypeError string
  | UnboundLocalError string
  | ZeroDivisionError string

datatype log_entry = Warn string | Hint string

type_synonym markers = "(string \<times> string fset) list"

type_synonym matrix = "rat list list"

text \<open>A value of the \<open>reference_markers\<close> dictionary: a \<open>set\<close>, or some other
  collection of gene names (a list), which \<open>isinstance(val, set)\<close> rejects.\<close>

datatype refval = PySet "string fset" | PyList "string list"

fun is_set :: "refval \<Rightarrow> bool" where
  "is_set (PySet s) = True"
| "is_set (PyList xs) = False"

fun members :: "refval \<Rightarrow> string fset" where
  "members (PySet s) = s"
| "members (PyList xs) = fset_of_list xs"

text \<open>A numpy record array: one column per field, in the order of \<open>dtype.names\<close>;
  \<open>shape[0]\<close> is the number of records, the length of every column.\<close>

type_synonym 'a recarray = "(string \<times> 'a list) list"

definition dtype_names :: "'a recarray \<Rightarrow> string list" where
  "dtype_names arr = map fst arr"

definition shape0 :: "'a recarray \<Rightarrow> nat" where
  "shape0 arr = (case arr of [] \<Rightarrow> 0 | (f, col) # rest \<Rightarrow> length col)"

record rank_genes_groups =
  names :: "string recarray"
  pvals_adj :: "rat recarray"

record dataframe =
  df_values :: matrix
  df_index :: "string list"
  df_columns :: "string list"

text \<open>What \<open>adata.uns\<close> holds here: results of \<open>rank_genes_groups\<close> (the input) and
  data frames (the output of this function).\<close>

datatype uns_val = RankGenes rank_genes_groups | Frame dataframe

record anndata =
  uns :: "string \<rightharpoonup> uns_val"

subsection \<open>Python and numpy primitives\<close>

text \<open>\<open>a / b\<close> on two Python ints: true division, raising on a zero divisor.\<close>

definition py_truediv :: "nat \<Rightarrow> nat \<Rightarrow> py_error + rat" where
  "py_truediv a b =
     (if b = 0 then Inl (ZeroDivisionError ''division by zero'')
      else Inr (of_nat a / of_nat b))"

text \<open>A list comprehension whose element expression may raise.\<close>

fun map_raise :: "('a \<Rightarrow> py_error + 'b) \<Rightarrow> 'a list \<Rightarrow> py_error + 'b list" where
  "map_raise f [] = Inr []"
| "map_raise f (x # xs) =
     (case f x of
        Inl e \<Rightarrow> Inl e
      | Inr y \<Rightarrow> (case map_raise f xs of Inl e \<Rightarrow> Inl e | Inr ys \<Rightarrow> Inr (y # ys)))"

text \<open>The slice \<open>xs[:n]\<close>; a negative \<open>n\<close> counts from the end.\<close>

definition py_slice_to :: "int \<Rightarrow> 'a list \<Rightarrow> 'a list" where
  "py_slice_to n xs =
     (if 0 \<le> n then take (nat n) xs else take (length xs - nat (- n)) xs)"

text \<open>Rounding to float64, to the nearest value and to the even one on a tie: the
  exponent of \<open>x\<close> is \<open>\<lfloor>log\<^sub>2 |x|\<rfloor>\<close>, at least \<open>-1022\<close> (below it the values are subnormal
  and equally spaced), and the values with that exponent are the multiples of
  \<open>2\<close> to the exponent minus 52.\<close>

definition round_half_even :: "rat \<Rightarrow> int" where
  "round_half_even x =
     (let f = \<lfloor>x\<rfloor>; d = x - of_int f
      in if d < 1 / 2 then f else if 1 / 2 < d then f + 1
         else if even f then f else f + 1)"

definition f64_exponent :: "rat \<Rightarrow> int" where
  "f64_exponent x =
     max (- 1022)
       (if 1 \<le> \<bar>x\<bar> then bitlen \<lfloor>\<bar>x\<bar>\<rfloor> - 1 else - bitlen (\<lceil>1 / \<bar>x\<bar>\<rceil> - 1))"

definition round_f64 :: "rat \<Rightarrow> rat" where
  "round_f64 x =
     (let q = 2 powi (f64_exponent x - 52)
      in of_int (round_half_even (x / q)) * q)"

definition float_max :: rat where
  "float_max = 2 ^ 1024 - 2 ^ 971"

text \<open>numpy's float division does not raise: \<open>0/0\<close> is \<open>nan\<close>, \<open>x/0\<close> is \<open>\<plusminus>inf\<close>;
  a quotient is rounded, and is \<open>\<plusminus>inf\<close> when it rounds beyond the largest float64.\<close>

datatype npfloat = Fin rat | NaN | PosInf | NegInf

definition np_div :: "rat \<Rightarrow> rat \<Rightarrow> npfloat" where
  "np_div a b =
     (if b = 0 then (if a = 0 then NaN else if 0 < a then PosInf else NegInf)
      else
        let q = round_f64 (a / b)
        in if float_max < q then PosInf else if q < - float_max then NegInf else Fin q)"

fun nan_to_num :: "npfloat \<Rightarrow> rat" where
  "nan_to_num (Fin x) = x"
| "nan_to_num NaN = 0"
| "nan_to_num PosInf = float_max"
| "nan_to_num NegInf = - float_max"

subsection \<open>The three metrics\<close>

text \<open>\<open>_calc_overlap_count\<close>: row \<open>j\<close> is the reference group \<open>j\<close> of \<open>markers1\<close>,
  column \<open>i\<close> the cluster \<open>i\<close> of \<open>markers2\<close>.\<close>

definition calc_overlap_count :: "markers \<Rightarrow> markers \<Rightarrow> matrix" where
  "calc_overlap_count markers1 markers2 =
     map (\<lambda>(marker_group, s1).
            map (\<lambda>(i, s2). of_nat (fcard (s2 |\<inter>| s1))) markers2)
         markers1"

text \<open>One entry of \<open>_calc_overlap_coef\<close>:
  \<open>len(s2.intersection(s1)) / max(min(len(s2), len(s1)), 1)\<close>.\<close>

definition overlap_coef_entry :: "string fset \<Rightarrow> string fset \<Rightarrow> py_error + rat" where
  "overlap_coef_entry s1 s2 =
     py_truediv (fcard (s2 |\<inter>| s1)) (max (min (fcard s2) (fcard s1)) 1)"

definition calc_overlap_coef :: "markers \<Rightarrow> markers \<Rightarrow> py_error + matrix" where
  "calc_overlap_coef markers1 markers2 =
     map_raise (\<lambda>(marker_group, s1).
                  map_raise (\<lambda>(i, s2). overlap_coef_entry s1 s2) markers2)
               markers1"

text \<open>One entry of \<open>_calc_jaccard\<close>:
  \<open>len(s2.intersection(s1)) / len(s2.union(s1))\<close>.\<close>

definition jaccard_entry :: "string fset \<Rightarrow> string fset \<Rightarrow> py_error + rat" where
  "jaccard_entry s1 s2 = py_truediv (fcard (s2 |\<inter>| s1)) (fcard (s2 |\<union>| s1))"

definition calc_jaccard :: "markers \<Rightarrow> markers \<Rightarrow> py_error + matrix" where
  "calc_jaccard markers1 markers2 =
     map_raise (\<lambda>(marker_group, s1).
                  map_raise (\<lambda>(i, s2). jaccard_entry s1 s2) markers2)
               markers1"

subsection \<open>The steps of \<open>marker_gene_overlap\<close>\<close>

definition avail_methods :: "string list" where
  "avail_methods = [''overlap_count'', ''overlap_coef'', ''jaccard'', ''enrich'']"

definition avail_norm :: "string option list" where
  "avail_norm = [Some ''reference'', Some ''data'', None]"

text \<open>Lines 123 to 143: the tests of the user's inputs. The result is the value of
  \<open>normalize\<close> after line 132. The two messages built with \<open>format\<close> print a Python
  set, whose order of elements is not fixed: they are kept as their templates.\<close>

definition check_inputs ::
  "(string \<rightharpoonup> uns_val) \<Rightarrow> (string \<times> refval) list \<Rightarrow> string \<Rightarrow> string option
     \<Rightarrow> string option \<Rightarrow> py_error + string option" where
  "check_inputs u reference_markers key method normalize' =
     (if u key = None then Inl (ValueError [])
      else if method \<notin> Some ` set avail_methods
        then Inl (ValueError ''Method must be one of {}.'')
      else
        let normalize' = (if normalize' = Some ''None'' then None else normalize') in
        if normalize' \<notin> set avail_norm
          then Inl (ValueError ''Normalize must be one of {}.'')
        else if normalize' \<noteq> None \<and> method \<noteq> Some ''overlap_count''
          then Inl (ValueError ''Can only normalize with method=`overlap_count`.'')
        else if \<not> list_all is_set (map snd reference_markers)
          then Inl (ValueError
            ''Please ensure that `reference_markers` contains sets of markers as values.'')
        else Inr normalize')"

text \<open>Lines 145 to 164: the two selection parameters are brought into range, with
  warnings.\<close>

definition check_thresholds ::
  "int option \<Rightarrow> rat option \<Rightarrow> int option \<times> rat option \<times> log_entry list" where
  "check_thresholds top_n_markers adj_pval_threshold =
     (let (thr, w1) =
            (case adj_pval_threshold of
               None \<Rightarrow> (None, [])
             | Some t \<Rightarrow>
                 let (t1, wa) =
                       (if t < 0
                        then (0, [Warn
                          ''`adj_pval_threshold` was set below 0. Threshold will be set to 0.''])
                        else (t, []));
                     (t2, wb) =
                       (if t1 > 1
                        then (1, [Warn
                          ''`adj_pval_threshold` was set above 1. Threshold will be set to 1.''])
                        else (t1, []));
                     wc =
                       (if top_n_markers \<noteq> None
                        then [Warn
                          ''Both `adj_pval_threshold` and `top_n_markers` is set. `adj_pval_threshold` will be ignored.'']
                        else [])
                 in (Some t2, wa @ wb @ wc));
          (top, w2) =
            (case top_n_markers of
               None \<Rightarrow> (None, [])
             | Some n \<Rightarrow>
                 if n < 1
                 then (Some 1, [Warn
                   ''`top_n_markers` was set below 1. `top_n_markers` will be set to 1.''])
                 else (Some n, []))
      in (top, thr, w1 @ w2))"

text \<open>Lines 173 to 181: the gene set of one cluster, from its column of names.\<close>

definition select_markers ::
  "int option \<Rightarrow> rat option \<Rightarrow> rank_genes_groups \<Rightarrow> string \<Rightarrow> string list
     \<Rightarrow> py_error + string fset" where
  "select_markers top_n_markers adj_pval_threshold rgg group' col =
     (case top_n_markers of
        Some n \<Rightarrow>
          let n_genes = min n (int (shape0 (names rgg)))
          in Inr (fset_of_list (py_slice_to n_genes col))
      | None \<Rightarrow>
          (case adj_pval_threshold of
             Some t \<Rightarrow>
               (case map_of (pvals_adj rgg) group' of
                  None \<Rightarrow> Inl (ValueError ''no field of name'')
                | Some ps \<Rightarrow>
                    let n_genes = int (length (filter (\<lambda>p. p < t) ps))
                    in Inr (fset_of_list (py_slice_to n_genes col)))
           | None \<Rightarrow> Inr (fset_of_list col)))"

text \<open>Lines 171 to 181: the loop over the clusters, filling the dictionary
  \<open>data_markers\<close>.\<close>

fun data_markers_loop ::
  "int option \<Rightarrow> rat option \<Rightarrow> rank_genes_groups \<Rightarrow> string recarray \<Rightarrow> markers
     \<Rightarrow> py_error + markers" where
  "data_markers_loop top_n_markers adj_pval_threshold rgg [] data_markers = Inr data_markers"
| "data_markers_loop top_n_markers adj_pval_threshold rgg ((group', col) # rest) data_markers =
     (case select_markers top_n_markers adj_pval_threshold rgg group' col of
        Inl e \<Rightarrow> Inl e
      | Inr s \<Rightarrow>
          data_markers_loop top_n_markers adj_pval_threshold rgg rest
            (AList.update group' s data_markers))"

text \<open>Lines 168 to 181. A data frame stored under \<open>key\<close> has no \<open>names\<close> record
  array: indexing it raises \<open>KeyError\<close>, or, when it has a column of that name, the
  column's \<open>dtype.names\<close> is \<open>None\<close> and the loop over it raises \<open>TypeError\<close>.\<close>

definition get_data_markers ::
  "uns_val \<Rightarrow> int option \<Rightarrow> rat option \<Rightarrow> py_error + markers \<times> string list" where
  "get_data_markers v top_n_markers adj_pval_threshold =
     (case v of
        Frame df \<Rightarrow>
          if ''names'' \<in> set (df_columns df)
          then Inl (TypeError ''NoneType object is not iterable'')
          else Inl (KeyError ''names'')
      | RankGenes rgg \<Rightarrow>
          let cluster_ids = dtype_names (names rgg) in
          (case data_markers_loop top_n_markers adj_pval_threshold rgg (names rgg) [] of
             Inl e \<Rightarrow> Inl e
           | Inr data_markers \<Rightarrow> Inr (data_markers, cluster_ids)))"

text \<open>Lines 192 to 200: the two normalisations of the count matrix. \<open>ncols\<close> is the
  second dimension of the array.\<close>

definition normalize_reference :: "matrix \<Rightarrow> matrix" where
  "normalize_reference marker_match =
     map (\<lambda>row. map (\<lambda>x. nan_to_num (np_div x (sum_list row))) row) marker_match"

definition column_sums :: "nat \<Rightarrow> matrix \<Rightarrow> rat list" where
  "column_sums ncols marker_match =
     map (\<lambda>i. sum_list (map (\<lambda>row. row ! i) marker_match)) [0..<ncols]"

definition normalize_data :: "nat \<Rightarrow> matrix \<Rightarrow> matrix" where
  "normalize_data ncols marker_match =
     (let col_sums = column_sums ncols marker_match
      in map (\<lambda>row. map (\<lambda>(x, s). nan_to_num (np_div x s)) (zip row col_sums)) marker_match)"

text \<open>Lines 189 to 206. No branch of the chain binds \<open>marker_match\<close> for the method
  \<open>enrich\<close>: the result \<open>None\<close> is the unbound local variable.\<close>

definition find_overlaps ::
  "string option \<Rightarrow> string option \<Rightarrow> markers \<Rightarrow> markers \<Rightarrow> py_error + matrix option" where
  "find_overlaps method normalize' reference_markers data_markers =
     (if method = Some ''overlap_count'' then
        let marker_match = calc_overlap_count reference_markers data_markers in
        if normalize' = Some ''reference'' then Inr (Some (normalize_reference marker_match))
        else if normalize' = Some ''data''
          then Inr (Some (normalize_data (length data_markers) marker_match))
        else Inr (Some marker_match)
      else if method = Some ''overlap_coef'' then
        (case calc_overlap_coef reference_markers data_markers of
           Inl e \<Rightarrow> Inl e | Inr m \<Rightarrow> Inr (Some m))
      else if method = Some ''jaccard'' then
        (case calc_jaccard reference_markers data_markers of
           Inl e \<Rightarrow> Inl e | Inr m \<Rightarrow> Inr (Some m))
      else Inr None)"

text \<open>Lines 214 to 216: the labelled table. Reading the unbound \<open>marker_match\<close>
  raises; pandas raises when the number of column labels is not the second dimension
  of the array.\<close>

definition make_frame ::
  "matrix option \<Rightarrow> (string \<times> refval) list \<Rightarrow> markers \<Rightarrow> string list
     \<Rightarrow> py_error + dataframe" where
  "make_frame marker_match reference_markers data_markers cluster_ids =
     (let marker_groups = map fst reference_markers;
          clusters = cluster_ids
      in case marker_match of
           None \<Rightarrow> Inl (UnboundLocalError ''marker_match'')
         | Some m \<Rightarrow>
             if length data_markers \<noteq> length clusters
             then Inl (ValueError ''Shape of passed values'')
             else Inr \<lparr>df_values = m, df_index = marker_groups, df_columns = clusters\<rparr>)"

text \<open>Lines 167 to 216: everything between the checks and the store.\<close>

definition compute_frame ::
  "uns_val \<Rightarrow> (string \<times> refval) list \<Rightarrow> string option \<Rightarrow> string option \<Rightarrow> int option
     \<Rightarrow> rat option \<Rightarrow> py_error + dataframe" where
  "compute_frame v reference_markers method normalize' top_n_markers adj_pval_threshold =
     (case get_data_markers v top_n_markers adj_pval_threshold of
        Inl e \<Rightarrow> Inl e
      | Inr (data_markers, cluster_ids) \<Rightarrow>
          (case find_overlaps method normalize'
                  (map (\<lambda>(k, val). (k, members val)) reference_markers) data_markers of
             Inl e \<Rightarrow> Inl e
           | Inr marker_match \<Rightarrow>
               make_frame marker_match reference_markers data_markers cluster_ids))"

definition hint_added :: "string \<Rightarrow> string" where
  "hint_added key_added =
     ''added'' @ [CHR 0x0A] @ ''    '' @ [CHR 0x27] @ key_added @ [CHR 0x27]
       @ '', marker overlap scores (adata.uns)''"

text \<open>The function. Its result is what it raises or returns (\<open>None\<close>), the annotated
  data afterwards and the messages it logged.\<close>

definition marker_gene_overlap ::
  "anndata \<Rightarrow> (string \<times> refval) list \<Rightarrow> string \<Rightarrow> string option \<Rightarrow> string option
     \<Rightarrow> int option \<Rightarrow> rat option \<Rightarrow> string
     \<Rightarrow> (py_error + unit) \<times> anndata \<times> log_entry list" where
  "marker_gene_overlap adata reference_markers key method normalize' top_n_markers
       adj_pval_threshold key_added =
     (case check_inputs (uns adata) reference_markers key method normalize' of
        Inl e \<Rightarrow> (Inl e, adata, [])
      | Inr normalize'' \<Rightarrow>
          (case check_thresholds top_n_markers adj_pval_threshold of
             (top_n', threshold', warnings) \<Rightarrow>
               (case uns adata key of
                  None \<Rightarrow> (Inl (KeyError key), adata, warnings)
                | Some v \<Rightarrow>
                    (case compute_frame v reference_markers method normalize'' top_n'
                            threshold' of
                       Inl e \<Rightarrow> (Inl e, adata, warnings)
                     | Inr marker_matching_df \<Rightarrow>
                         (Inr (),
                          adata\<lparr>uns := (uns adata)(key_added \<mapsto> Frame marker_matching_df)\<rparr>,
                          warnings @ [Hint (hint_added key_added)])))))"

subsection \<open>Example data\<close>

text \<open>The warning of line 157.\<close>

definition warn_both :: log_entry where
  "warn_both = Warn
     ''Both `adj_pval_threshold` and `top_n_markers` is set. `adj_pval_threshold` will be ignored.''"

text \<open>Two clusters of two ranked genes each, two reference groups, and a reference
  group with no gene.\<close>

definition scenario_rgg :: rank_genes_groups where
  "scenario_rgg =
     \<lparr>names = [(''0'', [''CD3'', ''CD8'']), (''1'', [''CD19'', ''MS4A1''])],
      pvals_adj = [(''0'', [1 / 100, 1 / 2]), (''1'', [1, 1])]\<rparr>"

definition scenario_adata :: anndata where
  "scenario_adata = \<lparr>uns = [''rank_genes_groups'' \<mapsto> RankGenes scenario_rgg]\<rparr>"

definition scenario_reference :: "(string \<times> refval) list" where
  "scenario_reference =
     [(''Tcell'', PySet {|''CD3'', ''CD4''|}), (''Bcell'', PySet {|''CD19'', ''MS4A1''|})]"

definition empty_reference :: "(string \<times> refval) list" where
  "empty_reference = [(''Unknown'', PySet {||})]"

text \<open>Two clusters of three ranked genes each.\<close>

definition ranked_rgg :: rank_genes_groups where
  "ranked_rgg =
     \<lparr>names = [(''0'', [''CD3'', ''CD8'', ''CD4'']), (''1'', [''CD19'', ''MS4A1'', ''CD79A''])],
      pvals_adj = [(''0'', [1 / 100, 1 / 50, 1 / 2]), (''1'', [1 / 1000, 1 / 10, 1])]\<rparr>"

definition ranked_adata :: anndata where
  "ranked_adata = \<lparr>uns = [''rank_genes_groups'' \<mapsto> RankGenes ranked_rgg]\<rparr>"

section \<open>Properties\<close>

subsection \<open>Auxiliary facts\<close>

lemma map_raise_total:
  "(\<And>x. x \<in> set xs \<Longrightarrow> f x = Inr (g x)) \<Longrightarrow> map_raise f xs = Inr (map g xs)"
  by (induction xs) simp_all

lemma map_raise_Inr_D:
  "map_raise f xs = Inr ys \<Longrightarrow> list_all2 (\<lambda>x y. f x = Inr y) xs ys"
  by (induction xs arbitrary: ys) (auto split: sum.splits)

lemma overlap_coef_entry_eq:
  "overlap_coef_entry R D = Inr (of_nat (fcard (R |\<inter>| D)) / of_nat (max (min (fcard R) (fcard D)) 1))"
  by (simp add: overlap_coef_entry_def py_truediv_def finter_commute min.commute)

lemma fcard_inter_le_min: "fcard (R |\<inter>| D) \<le> min (fcard R) (fcard D)"
  by (simp add: fcard_mono)

lemma coef_range:
  "0 \<le> (of_nat (fcard (R |\<inter>| D)) / of_nat (max (min (fcard R) (fcard D)) 1) :: rat)"
  "(of_nat (fcard (R |\<inter>| D)) / of_nat (max (min (fcard R) (fcard D)) 1) :: rat) \<le> 1"
proof -
  show "0 \<le> (of_nat (fcard (R |\<inter>| D)) / of_nat (max (min (fcard R) (fcard D)) 1) :: rat)"
    by simp
  have "fcard (R |\<inter>| D) \<le> max (min (fcard R) (fcard D)) 1"
    using fcard_inter_le_min [of R D] by linarith
  then have "(of_nat (fcard (R |\<inter>| D)) :: rat) \<le> of_nat (max (min (fcard R) (fcard D)) 1)"
    using of_nat_le_iff by blast
  then show "(of_nat (fcard (R |\<inter>| D)) / of_nat (max (min (fcard R) (fcard D)) 1) :: rat) \<le> 1"
    by (simp add: divide_le_eq_1)
qed

lemma calc_overlap_coef_eq:
  "calc_overlap_coef markers1 markers2 =
     Inr (map (\<lambda>(marker_group, R).
            map (\<lambda>(i, D). of_nat (fcard (R |\<inter>| D)) / of_nat (max (min (fcard R) (fcard D)) 1))
              markers2) markers1)"
  unfolding calc_overlap_coef_def
  by (intro map_raise_total) (auto simp: overlap_coef_entry_eq intro!: map_raise_total)

lemma jaccard_entry_eq:
  "R \<noteq> {||} \<or> D \<noteq> {||} \<Longrightarrow>
     jaccard_entry R D = Inr (of_nat (fcard (R |\<inter>| D)) / of_nat (fcard (R |\<union>| D)))"
  by (auto simp add: jaccard_entry_def py_truediv_def finter_commute funion_commute)

lemma jaccard_le_coef:
  assumes "R \<noteq> {||} \<or> D \<noteq> {||}"
  shows "(of_nat (fcard (R |\<inter>| D)) / of_nat (fcard (R |\<union>| D)) :: rat)
           \<le> of_nat (fcard (R |\<inter>| D)) / of_nat (max (min (fcard R) (fcard D)) 1)"
proof -
  have pos: "0 < fcard (R |\<union>| D)"
    using assms by (metis fcard_fempty funion_fempty_left funion_fempty_right gr0I fcard_0_eq sup_eq_bot_iff)
  have "min (fcard R) (fcard D) \<le> fcard (R |\<union>| D)"
    by (meson fcard_mono funion_upper1 min.coboundedI1)
  with pos have "max (min (fcard R) (fcard D)) 1 \<le> fcard (R |\<union>| D)" by simp
  then have "(of_nat (max (min (fcard R) (fcard D)) 1) :: rat) \<le> of_nat (fcard (R |\<union>| D))"
    using of_nat_le_iff by blast
  moreover have "(0::rat) < of_nat (max (min (fcard R) (fcard D)) 1)" by simp
  ultimately show ?thesis
    by (intro divide_left_mono mult_pos_pos) auto
qed

lemma check_inputs_None_string:
  "check_inputs u reference_markers key method (Some ''None'')
     = check_inputs u reference_markers key method None"
  by (simp add: check_inputs_def)

lemma check_inputs_norm_not_count:
  assumes "normalize' = Some ''reference'' \<or> normalize' = Some ''data''"
    and "method \<noteq> Some ''overlap_count''"
  shows "check_inputs u reference_markers key method normalize' =
     Inl (ValueError (if u key = None then []
        else if method \<notin> Some ` set avail_methods then ''Method must be one of {}.''
        else ''Can only normalize with method=`overlap_count`.''))"
  using assms by (auto simp add: check_inputs_def avail_norm_def)

lemma mgo_check_fails:
  "check_inputs (uns adata) reference_markers key method normalize' = Inl e \<Longrightarrow>
   marker_gene_overlap adata reference_markers key method normalize' top_n_markers adj_pval_threshold key_added = (Inl e, adata, [])"
  by (simp add: marker_gene_overlap_def)

lemma mgo_failure_unchanged:
  "fst (marker_gene_overlap adata reference_markers key method normalize' top_n_markers adj_pval_threshold key_added) = Inl e \<Longrightarrow>
   fst (snd (marker_gene_overlap adata reference_markers key method normalize' top_n_markers adj_pval_threshold key_added)) = adata"
  by (auto simp add: marker_gene_overlap_def split: sum.splits option.splits prod.splits)

lemma mgo_success_writes:
  "fst (marker_gene_overlap adata reference_markers key method normalize' top_n_markers adj_pval_threshold key_added) = Inr u \<Longrightarrow>
   \<exists>df. fst (snd (marker_gene_overlap adata reference_markers key method normalize' top_n_markers adj_pval_threshold key_added)) = adata\<lparr>uns := (uns adata)(key_added \<mapsto> Frame df)\<rparr>"
  by (auto simp add: marker_gene_overlap_def split: sum.splits option.splits prod.splits)

lemma check_inputs_Inr_D:
  "check_inputs u reference_markers key method normalize' = Inr nrm \<Longrightarrow>
     u key \<noteq> None \<and> method \<in> Some ` set avail_methods \<and> nrm \<in> set avail_norm
     \<and> (nrm \<noteq> None \<longrightarrow> method = Some ''overlap_count'')
     \<and> list_all is_set (map snd reference_markers)"
  by (auto simp add: check_inputs_def Let_def split: if_splits)

lemma check_thresholds_both:
  "fst (check_thresholds (Some n) (Some t)) = Some (max n 1)"
  "fst (check_thresholds (Some n) None) = Some (max n 1)"
  "warn_both \<in> set (snd (snd (check_thresholds (Some n) (Some t))))"
  by (auto simp add: check_thresholds_def Let_def warn_both_def split: prod.splits if_splits)

lemma select_markers_top_n:
  "select_markers (Some n) thr rgg g col =
     Inr (fset_of_list (py_slice_to (min n (int (shape0 (names rgg)))) col))"
  by (simp add: select_markers_def)

lemma data_markers_loop_top_n:
  "data_markers_loop (Some n) thr rgg arr acc = data_markers_loop (Some n) None rgg arr acc"
  by (induction arr arbitrary: acc) (auto simp add: select_markers_top_n)

lemma compute_frame_top_n:
  "compute_frame v reference_markers method nrm (Some n) thr
     = compute_frame v reference_markers method nrm (Some n) None"
  by (simp add: compute_frame_def get_data_markers_def data_markers_loop_top_n [of n thr] split: uns_val.splits)

lemma check_thresholds_top_n:
  "\<exists>thr ws. check_thresholds (Some n) adj_pval_threshold = (Some (max n 1), thr, ws)"
  by (auto simp add: check_thresholds_def Let_def split: prod.splits option.splits)

lemma update_absent_append:
  "k \<notin> fst ` set al \<Longrightarrow> AList.update k v al = al @ [(k, v)]"
  by (induction al) auto

lemma data_markers_loop_total:
  assumes "distinct (map fst arr)"
    and "fst ` set arr \<inter> fst ` set acc = {}"
    and "\<And>g col. (g, col) \<in> set arr \<Longrightarrow> select_markers topn thr rgg g col = Inr (f g col)"
  shows "data_markers_loop topn thr rgg arr acc = Inr (acc @ map (\<lambda>(g, col). (g, f g col)) arr)"
  using assms
proof (induction arr arbitrary: acc)
  case Nil
  then show ?case by simp
next
  case (Cons a arr)
  obtain g col where a: "a = (g, col)" by (cases a)
  have sel: "select_markers topn thr rgg g col = Inr (f g col)"
    using Cons.prems(3) a by simp
  have fresh: "g \<notin> fst ` set acc"
    using Cons.prems(2) a by auto
  have upd: "AList.update g (f g col) acc = acc @ [(g, f g col)]"
    using fresh by (rule update_absent_append)
  have disj: "fst ` set arr \<inter> fst ` set (acc @ [(g, f g col)]) = {}"
    using Cons.prems(1,2) a by auto
  have "data_markers_loop topn thr rgg arr (acc @ [(g, f g col)])
          = Inr ((acc @ [(g, f g col)]) @ map (\<lambda>(g, col). (g, f g col)) arr)"
    using Cons.prems(1,3) disj by (intro Cons.IH) auto
  then show ?case
    by (simp add: a sel upd)
qed

lemma select_markers_threshold:
  "map_of (pvals_adj rgg) g = Some ps \<Longrightarrow>
   select_markers None (Some t) rgg g col =
     Inr (fset_of_list (take (length (filter (\<lambda>p. p < t) ps)) col))"
  by (simp add: select_markers_def py_slice_to_def)

lemma check_thresholds_pval:
  "check_thresholds None (Some t) =
     (None, Some (max 0 (min 1 t)),
      (if t < 0 then [Warn ''`adj_pval_threshold` was set below 0. Threshold will be set to 0.''] else [])
      @ (if 1 < t then [Warn ''`adj_pval_threshold` was set above 1. Threshold will be set to 1.''] else []))"
  by (auto simp add: check_thresholds_def Let_def)

lemma get_data_markers_threshold:
  assumes "distinct (dtype_names (names rgg))"
    and "\<forall>g \<in> set (dtype_names (names rgg)). map_of (pvals_adj rgg) g \<noteq> None"
  shows "get_data_markers (RankGenes rgg) None (Some t) =
     Inr (map (\<lambda>(g, col). (g, fset_of_list
              (take (length (filter (\<lambda>p. p < t) (the (map_of (pvals_adj rgg) g)))) col)))
            (names rgg),
          dtype_names (names rgg))"
proof -
  have "data_markers_loop None (Some t) rgg (names rgg) [] =
     Inr ([] @ map (\<lambda>(g, col). (g, fset_of_list
              (take (length (filter (\<lambda>p. p < t) (the (map_of (pvals_adj rgg) g)))) col)))
            (names rgg))"
  proof (rule data_markers_loop_total)
    show "distinct (map fst (names rgg))"
      using assms(1) by (simp add: dtype_names_def)
    show "fst ` set (names rgg) \<inter> fst ` set [] = {}" by simp
    fix g col assume "(g, col) \<in> set (names rgg)"
    then have "g \<in> set (dtype_names (names rgg))"
      by (force simp add: dtype_names_def)
    then obtain ps where "map_of (pvals_adj rgg) g = Some ps"
      using assms(2) by auto
    then show "select_markers None (Some t) rgg g col =
       Inr (fset_of_list (take (length (filter (\<lambda>p. p < t) (the (map_of (pvals_adj rgg) g)))) col))"
      by (simp add: select_markers_threshold)
  qed
  then show ?thesis
    by (simp add: get_data_markers_def)
qed

lemma overlap_count_row_nonneg:
  "row \<in> set (calc_overlap_count markers1 markers2) \<Longrightarrow> x \<in> set row \<Longrightarrow> 0 \<le> x"
  by (auto simp add: calc_overlap_count_def)

lemma calc_overlap_count_length: "length (calc_overlap_count markers1 markers2) = length markers1"
  by (simp add: calc_overlap_count_def)

lemma calc_overlap_count_row_length:
  "j < length markers1 \<Longrightarrow> length (calc_overlap_count markers1 markers2 ! j) = length markers2"
  by (cases "markers1 ! j") (simp add: calc_overlap_count_def)

lemma normalize_reference_row:
  "j < length m \<Longrightarrow>
     normalize_reference m ! j = map (\<lambda>x. nan_to_num (np_div x (sum_list (m ! j)))) (m ! j)"
  by (simp add: normalize_reference_def)

lemma jaccard_entry_Inr_D:
  assumes "jaccard_entry R D = Inr v"
  shows "v \<le> of_nat (fcard (R |\<inter>| D)) / of_nat (max (min (fcard R) (fcard D)) 1)"
proof -
  have ne: "R \<noteq> {||} \<or> D \<noteq> {||}"
    using assms by (auto simp add: jaccard_entry_def py_truediv_def)
  then have "v = of_nat (fcard (R |\<inter>| D)) / of_nat (fcard (R |\<union>| D))"
    using assms jaccard_entry_eq [OF ne] by simp
  then show ?thesis
    using jaccard_le_coef [OF ne] by simp
qed

lemma jaccard_row_le:
  assumes "map_raise (\<lambda>(i, D). jaccard_entry R D) markers2 = Inr row"
  shows "list_all2 (\<le>) row
     (map (\<lambda>(i, D). of_nat (fcard (R |\<inter>| D)) / of_nat (max (min (fcard R) (fcard D)) 1)) markers2)"
  using assms
proof (induction markers2 arbitrary: row)
  case Nil
  then show ?case by simp
next
  case (Cons a markers2)
  obtain i D where a: "a = (i, D)" by (cases a)
  from Cons.prems a obtain v vs where
    v: "jaccard_entry R D = Inr v" and
    vs: "map_raise (\<lambda>(i, D). jaccard_entry R D) markers2 = Inr vs" and
    row: "row = v # vs"
    by (auto split: sum.splits)
  show ?case
    using jaccard_entry_Inr_D [OF v] Cons.IH [OF vs] by (simp add: a row)
qed

lemma jaccard_matrix_le:
  assumes "calc_jaccard markers1 markers2 = Inr J"
  shows "list_all2 (list_all2 (\<le>)) J
     (map (\<lambda>(marker_group, R).
            map (\<lambda>(i, D). of_nat (fcard (R |\<inter>| D)) / of_nat (max (min (fcard R) (fcard D)) 1))
              markers2) markers1)"
  using assms unfolding calc_jaccard_def
proof (induction markers1 arbitrary: J)
  case Nil
  then show ?case by simp
next
  case (Cons a markers1)
  obtain g R where a: "a = (g, R)" by (cases a)
  from Cons.prems a obtain r rs where
    r: "map_raise (\<lambda>(i, D). jaccard_entry R D) markers2 = Inr r" and
    rs: "map_raise (\<lambda>(marker_group, s1). map_raise (\<lambda>(i, s2). jaccard_entry s1 s2) markers2)
           markers1 = Inr rs" and
    J: "J = r # rs"
    by (auto split: sum.splits)
  show ?case
    using jaccard_row_le [OF r] Cons.IH [OF rs] by (simp add: a J)
qed

lemma unsupported_method_rejected:
  assumes "uns adata key \<noteq> None" and "method \<notin> Some ` set avail_methods"
  shows "marker_gene_overlap adata reference_markers key method normalize' top_n_markers
           adj_pval_threshold key_added
         = (Inl (ValueError ''Method must be one of {}.''), adata, [])"
  using assms by (simp add: marker_gene_overlap_def check_inputs_def)

lemma slice_top_n:
  "py_slice_to (min (max n 1) (int k)) col = take (min (nat (max n 1)) k) col"
proof -
  have "nat (min (max n 1) (int k)) = min (nat (max n 1)) k"
    by linarith
  moreover have "0 \<le> min (max n 1) (int k)"
    by simp
  ultimately show ?thesis
    by (simp only: py_slice_to_def if_True)
qed

lemma top_n_same_outcome:
  "fst (marker_gene_overlap adata reference_markers key method normalize' (Some n) (Some t) key_added)
   = fst (marker_gene_overlap adata reference_markers key method normalize' (Some n) None key_added)
  \<and> fst (snd (marker_gene_overlap adata reference_markers key method normalize' (Some n) (Some t) key_added))
   = fst (snd (marker_gene_overlap adata reference_markers key method normalize' (Some n) None key_added))"
proof -
  obtain thr1 ws1 where a: "check_thresholds (Some n) (Some t) = (Some (max n 1), thr1, ws1)"
    using check_thresholds_top_n by blast
  obtain thr2 ws2 where b: "check_thresholds (Some n) None = (Some (max n 1), thr2, ws2)"
    using check_thresholds_top_n by blast
  have c: "compute_frame v reference_markers method nrm (Some (max n 1)) thr1
         = compute_frame v reference_markers method nrm (Some (max n 1)) thr2" for v nrm
    using compute_frame_top_n [of v reference_markers "method" nrm "max n 1"] by metis
  show ?thesis
    by (simp add: marker_gene_overlap_def a b c split: sum.splits option.splits)
qed

lemma top_n_warning_logged:
  "check_inputs (uns adata) reference_markers key method normalize' = Inr nrm \<Longrightarrow>
   warn_both \<in> set (snd (snd (marker_gene_overlap adata reference_markers key method
      normalize' (Some n) (Some t) key_added)))"
  using check_thresholds_both(3) [of n t]
  by (auto simp add: marker_gene_overlap_def split: sum.splits option.splits prod.splits)

subsection \<open>Rounding to float64\<close>

lemma round_half_even_err: "\<bar>of_int (round_half_even x) - x\<bar> \<le> 1 / 2"
proof -
  have "of_int \<lfloor>x\<rfloor> \<le> x" "x < of_int \<lfloor>x\<rfloor> + 1"
    by linarith+
  then show ?thesis
    unfolding round_half_even_def Let_def by (auto simp: abs_le_iff)
qed



lemma xpos_of_bound:
  fixes x :: rat
  assumes "2 powi (- 1022) \<le> x"
  shows "0 < x"
proof -
  have "(0::rat) < 2 powi (- 1022)"
    by (rule zero_less_power_int) simp
  then show ?thesis using assms by (rule less_le_trans)
qed

lemma pow2_ge_one:
  fixes x :: rat
  assumes "1 \<le> x"
  shows "2 powi (bitlen \<lfloor>x\<rfloor> - 1) \<le> x"
proof -
  from assms have fpos: "0 < \<lfloor>x\<rfloor>" by linarith
  have b: "2 ^ nat (bitlen \<lfloor>x\<rfloor> - 1) \<le> \<lfloor>x\<rfloor>"
    using bitlen_bounds [OF fpos] by (rule conjunct1)
  have ge: "0 \<le> bitlen \<lfloor>x\<rfloor> - 1"
    using fpos by (simp add: bitlen_alt_def)
  have "(2::rat) powi (bitlen \<lfloor>x\<rfloor> - 1) = 2 ^ nat (bitlen \<lfloor>x\<rfloor> - 1)"
    using ge by (simp add: power_int_def)
  also have "\<dots> = of_int (2 ^ nat (bitlen \<lfloor>x\<rfloor> - 1))"
    by simp
  also have "\<dots> \<le> of_int \<lfloor>x\<rfloor>"
    using b by (simp only: of_int_le_iff)
  also have "\<dots> \<le> x" by (rule of_int_floor_le)
  finally show ?thesis .
qed


lemma pow2_lt_one:
  fixes x :: rat
  assumes "0 < x" and "x < 1"
  shows "2 powi (- bitlen (\<lceil>1 / x\<rceil> - 1)) \<le> x"
proof -
  define m where "m = \<lceil>1 / x\<rceil>"
  define k where "k = nat (bitlen (m - 1))"
  have "1 < 1 / x" using assms by simp
  then have m2: "0 < m - 1" unfolding m_def by linarith
  have "m - 1 < 2 ^ k"
    unfolding k_def using bitlen_bounds [OF m2] by (rule conjunct2)
  then have "m \<le> 2 ^ k" by simp
  then have "(of_int m :: rat) \<le> of_int (2 ^ k)"
    by (simp only: of_int_le_iff)
  then have mk: "(of_int m :: rat) \<le> 2 ^ k" by simp
  have "1 / x \<le> of_int m"
    unfolding m_def by (rule le_of_int_ceiling)
  then have "1 / x \<le> 2 ^ k" using mk by (rule order_trans)
  then have "1 \<le> 2 ^ k * x"
    using assms(1) by (simp add: pos_divide_le_eq)
  then have "1 / 2 ^ k \<le> x"
    by (simp add: pos_divide_le_eq mult.commute)
  moreover have "(2::rat) powi (- bitlen (m - 1)) = 1 / 2 ^ k"
    unfolding k_def using bitlen_nonneg [of "m - 1"]
    by (simp add: power_int_def inverse_eq_divide power_one_over)
  ultimately show ?thesis unfolding m_def by simp
qed


lemma f64_exponent_lower:
  assumes "2 powi (- 1022) \<le> x"
  shows "2 powi (f64_exponent x) \<le> x"
proof -
  have xpos: "0 < x"
    using assms by (rule xpos_of_bound)
  then have ax: "\<bar>x\<bar> = x" by simp
  define e0 where
    "e0 = (if 1 \<le> x then bitlen \<lfloor>x\<rfloor> - 1 else - bitlen (\<lceil>1 / x\<rceil> - 1))"
  have main: "2 powi e0 \<le> x"
  proof (cases "1 \<le> x")
    case True
    then show ?thesis unfolding e0_def using pow2_ge_one [OF True] by (simp only: if_True)
  next
    case False
    then have "x < 1" by simp
    from pow2_lt_one [OF xpos this] False show ?thesis
      unfolding e0_def by (simp only: if_False)
  qed
  have ex: "f64_exponent x = max (- 1022) e0"
    unfolding f64_exponent_def e0_def ax ..
  show ?thesis
  proof (cases "- 1022 \<le> e0")
    case True
    then have "max (- 1022) e0 = e0" by (rule max_absorb2)
    then show ?thesis using main ex by (simp only:)
  next
    case False
    then have "max (- 1022) e0 = - 1022" by (simp only: max_def if_False)
    then show ?thesis using assms ex by (simp only:)
  qed
qed


lemma scaled_round_err:
  fixes q :: rat
  assumes "0 < q"
  shows "\<bar>of_int (round_half_even (x / q)) * q - x\<bar> \<le> q / 2"
proof -
  define r :: rat where "r = of_int (round_half_even (x / q))"
  have "\<bar>r - x / q\<bar> \<le> 1 / 2"
    unfolding r_def by (rule round_half_even_err)
  then have "\<bar>r - x / q\<bar> * q \<le> 1 / 2 * q"
    using assms by (simp only: mult_le_cancel_right_pos)
  moreover have "\<bar>r - x / q\<bar> * q = \<bar>(r - x / q) * q\<bar>"
    using assms by (simp add: abs_mult)
  moreover have "(r - x / q) * q = r * q - x"
    using assms by (simp add: left_diff_distrib)
  ultimately show ?thesis
    unfolding r_def by simp
qed

lemma round_f64_rel_err:
  assumes "2 powi (- 1022) \<le> x"
  shows "\<bar>round_f64 x - x\<bar> \<le> x / 2 ^ 53"
proof -
  define e where "e = f64_exponent x"
  define q :: rat where "q = 2 powi (e - 52)"
  have qpos: "0 < q"
    unfolding q_def by (rule zero_less_power_int) simp
  have r: "round_f64 x = of_int (round_half_even (x / q)) * q"
    unfolding round_f64_def q_def e_def Let_def ..
  have err: "\<bar>round_f64 x - x\<bar> \<le> q / 2"
    unfolding r using qpos by (rule scaled_round_err)
  have "q = 2 powi e / 2 powi 52"
    unfolding q_def by (simp add: power_int_diff)
  also have "(2::rat) powi 52 = 2 ^ 52"
    by (simp only: power_int_def) simp
  finally have "q / 2 = 2 powi e / 2 ^ 53" by simp
  also have "\<dots> \<le> x / 2 ^ 53"
    using f64_exponent_lower [OF assms] unfolding e_def by (simp add: divide_right_mono)
  finally have "q / 2 \<le> x / 2 ^ 53" .
  with err show ?thesis by (rule order_trans)
qed


lemma round_f64_zero: "round_f64 0 = 0"
  by (simp add: round_f64_def round_half_even_def)

lemma float_max_ge_two: "2 \<le> float_max"
  by (simp add: float_max_def)

lemma tiny_le: "(2::rat) powi (- 1022) \<le> 1 / 2 ^ 53"
proof -
  have "(2::rat) powi (- 1022) \<le> 2 powi (- 53)"
    by (rule power_int_increasing) simp_all
  also have "(2::rat) powi (- 53) = 1 / 2 ^ 53"
    by (simp add: power_int_def inverse_eq_divide power_one_over)
  finally show ?thesis .
qed

lemma np_div_entry:
  fixes s :: rat
  assumes "x = of_nat n" and "x \<le> s" and "0 < s" and "s \<le> 2 ^ 53"
  shows "nan_to_num (np_div x s) = round_f64 (x / s)
       \<and> \<bar>round_f64 (x / s) - x / s\<bar> \<le> (x / s) / 2 ^ 53"
proof (cases "n = 0")
  case True
  then have "x = 0" using assms(1) by simp
  then show ?thesis
    using assms(3) float_max_ge_two by (simp add: np_div_def round_f64_zero)
next
  case False
  then have x1: "1 \<le> x" using assms(1) by simp
  define y where "y = x / s"
  have ypos: "0 < y" unfolding y_def using x1 assms(3) by simp
  have y1: "y \<le> 1" unfolding y_def using assms(2,3) by simp
  have "1 / s \<le> y"
    unfolding y_def using x1 assms(3) by (simp add: divide_right_mono)
  moreover have "1 / 2 ^ 53 \<le> 1 / s"
    using assms(3,4) by (simp add: frac_le)
  ultimately have "1 / 2 ^ 53 \<le> y" by (rule order_trans [rotated])
  with tiny_le have low: "2 powi (- 1022) \<le> y" by (rule order_trans)
  have err: "\<bar>round_f64 y - y\<bar> \<le> y / 2 ^ 53"
    using low by (rule round_f64_rel_err)
  have "y / 2 ^ 53 \<le> 1"
    using y1 ypos by (simp add: pos_divide_le_eq)
  with err have "\<bar>round_f64 y - y\<bar> \<le> 1" by (rule order_trans)
  then have r: "0 - 1 \<le> round_f64 y" "round_f64 y \<le> 2"
    using ypos y1 by (simp_all add: abs_le_iff)
  have a: "\<not> float_max < round_f64 y"
    using r(2) float_max_ge_two by simp
  have b: "\<not> round_f64 y < - float_max"
    using r(1) float_max_ge_two by simp
  have "nan_to_num (np_div x s) = round_f64 y"
    using assms(3) a b by (simp add: np_div_def Let_def y_def)
  then show ?thesis using err unfolding y_def by simp
qed

lemma sum_list_abs_diff:
  fixes f g h :: "'a \<Rightarrow> rat"
  assumes "\<And>x. x \<in> set xs \<Longrightarrow> \<bar>f x - g x\<bar> \<le> h x"
  shows "\<bar>sum_list (map f xs) - sum_list (map g xs)\<bar> \<le> sum_list (map h xs)"
  using assms
proof (induction xs)
  case Nil
  then show ?case by simp
next
  case (Cons a xs)
  have 1: "\<bar>f a - g a\<bar> \<le> h a" using Cons.prems by simp
  have 2: "\<bar>sum_list (map f xs) - sum_list (map g xs)\<bar> \<le> sum_list (map h xs)"
    using Cons.prems by (intro Cons.IH) simp
  have "\<bar>(f a + sum_list (map f xs)) - (g a + sum_list (map g xs))\<bar>
      \<le> \<bar>f a - g a\<bar> + \<bar>sum_list (map f xs) - sum_list (map g xs)\<bar>"
    by linarith
  then show ?case using 1 2 by simp
qed

lemma member_le_sum_list:
  fixes row :: "rat list"
  assumes "\<forall>x \<in> set row. 0 \<le> x" and "x \<in> set row"
  shows "x \<le> sum_list row"
  using assms by (induction row) (auto simp: sum_list_nonneg add_increasing add_increasing2)


lemma normalize_row_zero:
  assumes "\<forall>x \<in> set row. 0 \<le> x" and "sum_list row = 0"
  shows "\<forall>y \<in> set (map (\<lambda>x. nan_to_num (np_div x (sum_list row))) row). y = 0"
proof -
  have "\<forall>x \<in> set row. x = 0"
    using assms by (simp add: sum_list_nonneg_eq_0_iff)
  then show ?thesis
    using assms(2) by (simp add: np_div_def)
qed

lemma sum_list_divided:
  fixes row :: "rat list"
  shows "sum_list (map (\<lambda>x. x / c) row) = sum_list row / c"
  by (induction row) (simp_all add: add_divide_distrib)

lemma normalize_row_near_one:
  fixes row :: "rat list"
  assumes nat: "\<forall>x \<in> set row. \<exists>n. x = of_nat n"
    and nz: "\<exists>x \<in> set row. x \<noteq> 0"
    and bound: "sum_list row \<le> 2 ^ 53"
  shows "\<bar>sum_list (map (\<lambda>x. nan_to_num (np_div x (sum_list row))) row) - 1\<bar> \<le> 1 / 2 ^ 53"
proof -
  define s where "s = sum_list row"
  have nonneg: "\<forall>x \<in> set row. 0 \<le> x"
    using nat by auto
  have "s \<noteq> 0"
    unfolding s_def using nonneg nz by (simp add: sum_list_nonneg_eq_0_iff)
  moreover have "0 \<le> s"
    unfolding s_def using nonneg by (simp add: sum_list_nonneg)
  ultimately have spos: "0 < s" by simp
  have entry: "\<bar>nan_to_num (np_div x s) - x / s\<bar> \<le> (x / s) / 2 ^ 53" if "x \<in> set row" for x
  proof -
    from nat that have "\<exists>n. x = of_nat n" by (rule bspec)
    then obtain n where n: "x = of_nat n" ..
    have le: "x \<le> s"
      unfolding s_def using nonneg that by (rule member_le_sum_list)
    have s53: "s \<le> 2 ^ 53" unfolding s_def by (rule bound)
    from np_div_entry [OF n le spos s53] show ?thesis by simp
  qed
  have "\<bar>sum_list (map (\<lambda>x. nan_to_num (np_div x s)) row) - sum_list (map (\<lambda>x. x / s) row)\<bar>
      \<le> sum_list (map (\<lambda>x. (x / s) / 2 ^ 53) row)"
    using entry
    by (rule sum_list_abs_diff [of row "\<lambda>x. nan_to_num (np_div x s)" "\<lambda>x. x / s"
          "\<lambda>x. (x / s) / 2 ^ 53"])
  moreover have "sum_list (map (\<lambda>x. x / s) row) = 1"
  proof -
    have "sum_list (map (\<lambda>x. x / s) row) = sum_list row / s"
      by (rule sum_list_divided)
    also have "\<dots> = 1" using spos unfolding s_def by simp
    finally show ?thesis .
  qed
  moreover have "sum_list (map (\<lambda>x. (x / s) / 2 ^ 53) row) = 1 / 2 ^ 53"
  proof -
    have "sum_list (map (\<lambda>x. x / (s * 2 ^ 53)) row) = sum_list row / (s * 2 ^ 53)"
      by (rule sum_list_divided)
    also have "\<dots> = (sum_list row / s) / 2 ^ 53"
      by (simp only: divide_divide_eq_left)
    also have "sum_list row / s = 1" using spos unfolding s_def by simp
    finally show ?thesis by (simp only: divide_divide_eq_left)
  qed
  ultimately show ?thesis unfolding s_def by (simp only:)
qed

lemma normalize_row_entries:
  fixes row :: "rat list"
  assumes nat: "\<forall>x \<in> set row. \<exists>n. x = of_nat n"
    and nz: "\<exists>x \<in> set row. x \<noteq> 0"
    and bound: "sum_list row \<le> 2 ^ 53"
  shows "map (\<lambda>x. nan_to_num (np_div x (sum_list row))) row
       = map (\<lambda>x. round_f64 (x / sum_list row)) row"
proof (rule map_cong [OF refl])
  fix x assume mem: "x \<in> set row"
  have nonneg: "\<forall>x \<in> set row. 0 \<le> x"
    using nat by auto
  have "sum_list row \<noteq> 0"
    using nonneg nz by (simp add: sum_list_nonneg_eq_0_iff)
  moreover have "0 \<le> sum_list row"
    using nonneg by (simp add: sum_list_nonneg)
  ultimately have spos: "0 < sum_list row" by simp
  from nat mem have "\<exists>n. x = of_nat n" by (rule bspec)
  then obtain n where n: "x = of_nat n" ..
  have le: "x \<le> sum_list row"
    using nonneg mem by (rule member_le_sum_list)
  from np_div_entry [OF n le spos bound]
  show "nan_to_num (np_div x (sum_list row)) = round_f64 (x / sum_list row)"
    by (rule conjunct1)
qed

lemma overlap_count_row_nat:
  "row \<in> set (calc_overlap_count markers1 markers2) \<Longrightarrow> x \<in> set row \<Longrightarrow> \<exists>n. x = of_nat n"
  by (auto simp add: calc_overlap_count_def)

subsection \<open>The call after its checks\<close>

lemma mgo_after_checks:
  assumes "check_inputs (uns adata) reference_markers key method normalize' = Inr nrm"
    and "uns adata key = Some v"
    and "check_thresholds top_n_markers adj_pval_threshold = (topn, thr, ws)"
    and "get_data_markers v topn thr = Inr (data_markers, cluster_ids)"
  shows "marker_gene_overlap adata reference_markers key method normalize' top_n_markers
           adj_pval_threshold key_added =
     (case find_overlaps method nrm (map (\<lambda>(k, val). (k, members val)) reference_markers)
             data_markers of
        Inl e \<Rightarrow> (Inl e, adata, ws)
      | Inr marker_match \<Rightarrow>
          (case make_frame marker_match reference_markers data_markers cluster_ids of
             Inl e \<Rightarrow> (Inl e, adata, ws)
           | Inr df \<Rightarrow>
               (Inr (), adata\<lparr>uns := (uns adata)(key_added \<mapsto> Frame df)\<rparr>,
                ws @ [Hint (hint_added key_added)])))"
  using assms by (simp add: marker_gene_overlap_def compute_frame_def split: sum.splits)

lemma check_thresholds_both_eq:
  "check_thresholds (Some n) (Some t) =
     (Some (max n 1), Some (max 0 (min 1 t)),
      (if t < 0
       then [Warn ''`adj_pval_threshold` was set below 0. Threshold will be set to 0.'']
       else [])
      @ (if 1 < t
         then [Warn ''`adj_pval_threshold` was set above 1. Threshold will be set to 1.'']
         else [])
      @ [warn_both]
      @ (if n < 1
         then [Warn ''`top_n_markers` was set below 1. `top_n_markers` will be set to 1.'']
         else []))"
  by (auto simp add: check_thresholds_def Let_def warn_both_def)

lemma get_data_markers_top_n:
  assumes "distinct (dtype_names (names rgg))"
  shows "get_data_markers (RankGenes rgg) (Some (max n 1)) thr =
     Inr (map (\<lambda>(g, col). (g, fset_of_list
              (take (min (nat (max n 1)) (shape0 (names rgg))) col)))
            (names rgg),
          dtype_names (names rgg))"
proof -
  have "data_markers_loop (Some (max n 1)) thr rgg (names rgg) [] =
     Inr ([] @ map (\<lambda>(g, col). (g, fset_of_list
              (take (min (nat (max n 1)) (shape0 (names rgg))) col)))
            (names rgg))"
  proof (rule data_markers_loop_total)
    show "distinct (map fst (names rgg))"
      using assms by (simp add: dtype_names_def)
    show "fst ` set (names rgg) \<inter> fst ` set [] = {}" by simp
    fix g col assume "(g, col) \<in> set (names rgg)"
    show "select_markers (Some (max n 1)) thr rgg g col =
       Inr (fset_of_list (take (min (nat (max n 1)) (shape0 (names rgg))) col))"
      by (simp only: select_markers_top_n slice_top_n)
  qed
  then show ?thesis
    by (simp add: get_data_markers_def)
qed

text \<open>The definitions unfolded to run the function on the example data.\<close>

lemmas mgo_eval_defs =
  marker_gene_overlap_def check_inputs_def avail_methods_def avail_norm_def
  check_thresholds_def compute_frame_def get_data_markers_def select_markers_def
  py_slice_to_def find_overlaps_def make_frame_def dtype_names_def shape0_def
  scenario_adata_def scenario_rgg_def scenario_reference_def empty_reference_def

subsection \<open>Unsupported methods\<close>

text \<open>
  Claim C1. A \<open>method\<close> other than \<open>overlap_count\<close>, \<open>overlap_coef\<close> and
  \<open>jaccard\<close> is to fail with a \<open>ValueError\<close> that carries a message, before anything
  is computed. The code at the method \<open>enrich\<close>: the set \<open>avail_methods\<close> of line 127
  holds it, so the checks of lines 123 to 143 pass; no branch of lines 189 to 206 binds
  \<open>marker_match\<close>, and line 216 raises \<open>UnboundLocalError\<close>. (Every method outside
  the four names of \<open>avail_methods\<close> is rejected as the claim says:
  \<open>unsupported_method_rejected\<close>.)
\<close>

theorem enrich_passes_checks_then_unbound:
  "check_inputs (uns scenario_adata) scenario_reference ''rank_genes_groups''
       (Some ''enrich'') None = Inr None
   \<and> marker_gene_overlap scenario_adata scenario_reference ''rank_genes_groups''
       (Some ''enrich'') None None None ''marker_gene_overlap''
     = (Inl (UnboundLocalError ''marker_match''), scenario_adata, [])"
  by (simp add: mgo_eval_defs)

subsection \<open>The Jaccard index of two empty sets\<close>

text \<open>
  Claim C2. The Jaccard index of an empty reference set and an empty data set (0/0) is
  not to raise an arithmetic fault. The code: line 62 divides two Python ints, the
  divisor \<open>len(union)\<close> is 0, and \<open>ZeroDivisionError\<close> leaves the function; here for
  a reference group without genes and the threshold 0, under which no gene of any
  cluster is selected.
\<close>

theorem jaccard_of_two_empty_sets_raises:
  "jaccard_entry {||} {||} = Inl (ZeroDivisionError ''division by zero'')
   \<and> marker_gene_overlap scenario_adata empty_reference ''rank_genes_groups''
       (Some ''jaccard'') None None (Some 0) ''marker_gene_overlap''
     = (Inl (ZeroDivisionError ''division by zero''), scenario_adata, [])"
  by (simp add: mgo_eval_defs calc_jaccard_def jaccard_entry_def py_truediv_def)

subsection \<open>Normalisation needs the overlap count\<close>

text \<open>
  Claim C3. Every call that asks for a normalisation (\<open>reference\<close> or \<open>data\<close>) with
  a method other than \<open>overlap_count\<close> raises a \<open>ValueError\<close> in the checks of lines
  123 to 143, before any gene set or matrix is computed: the annotated data are
  unchanged and nothing is logged. When the key is present and the method is one of
  \<open>avail_methods\<close>, the message is that of line 139.
\<close>

theorem normalization_requires_overlap_count:
  assumes "normalize' = Some ''reference'' \<or> normalize' = Some ''data''"
    and "method \<noteq> Some ''overlap_count''"
  shows "\<exists>msg.
      check_inputs (uns adata) reference_markers key method normalize' = Inl (ValueError msg)
    \<and> marker_gene_overlap adata reference_markers key method normalize' top_n_markers
          adj_pval_threshold key_added
        = (Inl (ValueError msg), adata, [])
    \<and> (uns adata key \<noteq> None \<and> method \<in> Some ` set avail_methods
          \<longrightarrow> msg = ''Can only normalize with method=`overlap_count`.'')"
proof -
  let ?msg = "if uns adata key = None then []
        else if method \<notin> Some ` set avail_methods then ''Method must be one of {}.''
        else ''Can only normalize with method=`overlap_count`.''"
  have c: "check_inputs (uns adata) reference_markers key method normalize'
             = Inl (ValueError ?msg)"
    using assms by (rule check_inputs_norm_not_count)
  have m: "marker_gene_overlap adata reference_markers key method normalize' top_n_markers
          adj_pval_threshold key_added = (Inl (ValueError ?msg), adata, [])"
    using c by (rule mgo_check_fails)
  have d: "uns adata key \<noteq> None \<and> method \<in> Some ` set avail_methods
          \<longrightarrow> ?msg = ''Can only normalize with method=`overlap_count`.''"
    by simp
  show ?thesis
    using c m d by (intro exI [of _ ?msg] conjI)
qed

theorem normalization_requires_overlap_count_witness:
  "Some ''jaccard'' \<noteq> Some ''overlap_count''
   \<and> marker_gene_overlap scenario_adata scenario_reference ''rank_genes_groups''
        (Some ''jaccard'') (Some ''reference'') None None ''marker_gene_overlap''
      = (Inl (ValueError ''Can only normalize with method=`overlap_count`.''),
         scenario_adata, [])"
  using normalization_requires_overlap_count [of "Some ''reference''" "Some ''jaccard''"
      scenario_adata scenario_reference "''rank_genes_groups''" None None
      "''marker_gene_overlap''"]
  by (simp add: scenario_adata_def avail_methods_def)

subsection \<open>Normalisation by reference row\<close>

text \<open>
  Claim C4. After the normalisation \<open>reference\<close> of an overlap-count matrix, every row
  whose sum was zero is all zero (the \<open>nan\<close> of \<open>0/0\<close> is replaced by 0), and every row
  with a non-zero entry sums to 1 within floating tolerance: each entry is the quotient
  rounded to float64 (last part), and the sum of the entries differs from 1 by at most
  \<open>1 / 2 ^ 53\<close>. The row sum is at most \<open>2 ^ 53\<close>, the range in which float64 holds
  the counts and their sum exactly. The sum need not be 1 exactly: the row
  \<open>[3, 2, 1]\<close> becomes \<open>[1/2, fl(1/3), fl(1/6)]\<close>, which sums to \<open>1 - 1 / 2 ^ 55\<close>.
\<close>

theorem reference_normalization_rows:
  assumes "j < length reference_markers"
    and "sum_list (calc_overlap_count reference_markers data_markers ! j) \<le> 2 ^ 53"
  shows "\<exists>M. find_overlaps (Some ''overlap_count'') (Some ''reference'')
                 reference_markers data_markers = Inr (Some M)
           \<and> length M = length reference_markers
           \<and> length (M ! j) = length data_markers
           \<and> (sum_list (calc_overlap_count reference_markers data_markers ! j) = 0
                \<longrightarrow> (\<forall>y \<in> set (M ! j). y = 0))
           \<and> ((\<exists>x \<in> set (calc_overlap_count reference_markers data_markers ! j). x \<noteq> 0)
                \<longrightarrow> \<bar>sum_list (M ! j) - 1\<bar> \<le> 1 / 2 ^ 53)
           \<and> ((\<exists>x \<in> set (calc_overlap_count reference_markers data_markers ! j). x \<noteq> 0)
                \<longrightarrow> M ! j =
                  map (\<lambda>x. round_f64
                         (x / sum_list (calc_overlap_count reference_markers data_markers ! j)))
                    (calc_overlap_count reference_markers data_markers ! j))"
proof -
  define C where "C = calc_overlap_count reference_markers data_markers"
  define M where "M = normalize_reference C"
  have len: "length C = length reference_markers"
    unfolding C_def by (rule calc_overlap_count_length)
  have jC: "j < length C"
    using assms(1) len by simp
  have row: "M ! j = map (\<lambda>x. nan_to_num (np_div x (sum_list (C ! j)))) (C ! j)"
    unfolding M_def using jC by (rule normalize_reference_row)
  have mem: "C ! j \<in> set C"
    using jC by (rule nth_mem)
  have nonneg: "\<forall>x \<in> set (C ! j). 0 \<le> x"
    using overlap_count_row_nonneg mem unfolding C_def by blast
  have nat: "\<forall>x \<in> set (C ! j). \<exists>n. x = of_nat n"
    using overlap_count_row_nat mem unfolding C_def by blast
  have bound: "sum_list (C ! j) \<le> 2 ^ 53"
    unfolding C_def by (rule assms(2))
  have w: "length (C ! j) = length data_markers"
    unfolding C_def using assms(1) by (rule calc_overlap_count_row_length)
  have 1: "find_overlaps (Some ''overlap_count'') (Some ''reference'')
          reference_markers data_markers = Inr (Some M)"
    by (simp add: find_overlaps_def M_def C_def)
  have 2: "length M = length reference_markers"
    by (simp add: M_def normalize_reference_def len)
  have 3: "length (M ! j) = length data_markers"
    by (simp add: row w)
  have 4: "sum_list (C ! j) = 0 \<longrightarrow> (\<forall>y \<in> set (M ! j). y = 0)"
    unfolding row using normalize_row_zero [OF nonneg] by (rule impI)
  have 5: "(\<exists>x \<in> set (C ! j). x \<noteq> 0) \<longrightarrow> \<bar>sum_list (M ! j) - 1\<bar> \<le> 1 / 2 ^ 53"
    unfolding row using normalize_row_near_one [OF nat _ bound] by (rule impI)
  have 6: "(\<exists>x \<in> set (C ! j). x \<noteq> 0)
             \<longrightarrow> M ! j = map (\<lambda>x. round_f64 (x / sum_list (C ! j))) (C ! j)"
    unfolding row using normalize_row_entries [OF nat _ bound] by (rule impI)
  show ?thesis
    unfolding C_def [symmetric] using 1 2 3 4 5 6 by (intro exI [of _ M] conjI)
qed

theorem reference_normalization_rows_witness:
  "calc_overlap_count
        [(''Tcell'', {|''CD2'', ''CD3D'', ''CD3E'', ''CD4'', ''CD5'', ''CD7''|}),
         (''Bcell'', {|''CD19''|})]
        [(''0'', {|''CD2'', ''CD3D'', ''CD3E''|}), (''1'', {|''CD4'', ''CD5'', ''GNLY''|}),
         (''2'', {|''CD7'', ''NKG7''|})]
      = [[3, 2, 1], [0, 0, 0]]
   \<and> find_overlaps (Some ''overlap_count'') (Some ''reference'')
        [(''Tcell'', {|''CD2'', ''CD3D'', ''CD3E'', ''CD4'', ''CD5'', ''CD7''|}),
         (''Bcell'', {|''CD19''|})]
        [(''0'', {|''CD2'', ''CD3D'', ''CD3E''|}), (''1'', {|''CD4'', ''CD5'', ''GNLY''|}),
         (''2'', {|''CD7'', ''NKG7''|})]
      = Inr (Some [[1 / 2, 6004799503160661 / 18014398509481984,
               6004799503160661 / 36028797018963968],
              [0, 0, 0]])
   \<and> sum_list [1 / 2, 6004799503160661 / 18014398509481984,
         6004799503160661 / 36028797018963968 :: rat] = 1 - 1 / 2 ^ 55"
proof -
  have c: "calc_overlap_count
        [(''Tcell'', {|''CD2'', ''CD3D'', ''CD3E'', ''CD4'', ''CD5'', ''CD7''|}),
         (''Bcell'', {|''CD19''|})]
        [(''0'', {|''CD2'', ''CD3D'', ''CD3E''|}), (''1'', {|''CD4'', ''CD5'', ''GNLY''|}),
         (''2'', {|''CD7'', ''NKG7''|})]
      = [[3, 2, 1], [0, 0, 0]]"
    by code_simp
  have r2: "round_f64 (1 / 2) = 1 / 2"
    by code_simp
  have r3: "round_f64 (1 / 3) = 6004799503160661 / 18014398509481984"
    by code_simp
  have r6: "round_f64 (1 / 6) = 6004799503160661 / 36028797018963968"
    by code_simp
  have f: "find_overlaps (Some ''overlap_count'') (Some ''reference'')
        [(''Tcell'', {|''CD2'', ''CD3D'', ''CD3E'', ''CD4'', ''CD5'', ''CD7''|}),
         (''Bcell'', {|''CD19''|})]
        [(''0'', {|''CD2'', ''CD3D'', ''CD3E''|}), (''1'', {|''CD4'', ''CD5'', ''GNLY''|}),
         (''2'', {|''CD7'', ''NKG7''|})]
      = Inr (Some [[1 / 2, 6004799503160661 / 18014398509481984,
               6004799503160661 / 36028797018963968],
              [0, 0, 0]])"
    by (simp add: find_overlaps_def c normalize_reference_def np_div_def r2 r3 r6
        float_max_def)
  have s: "sum_list [1 / 2, 6004799503160661 / 18014398509481984,
         6004799503160661 / 36028797018963968 :: rat] = 1 - 1 / 2 ^ 55"
    by simp
  show ?thesis
    using reference_normalization_rows [of 0
        "[(''Tcell'', {|''CD2'', ''CD3D'', ''CD3E'', ''CD4'', ''CD5'', ''CD7''|}),
         (''Bcell'', {|''CD19''|})]"
        "[(''0'', {|''CD2'', ''CD3D'', ''CD3E''|}), (''1'', {|''CD4'', ''CD5'', ''GNLY''|}),
         (''2'', {|''CD7'', ''NKG7''|})]"]
      reference_normalization_rows [of 1
        "[(''Tcell'', {|''CD2'', ''CD3D'', ''CD3E'', ''CD4'', ''CD5'', ''CD7''|}),
         (''Bcell'', {|''CD19''|})]"
        "[(''0'', {|''CD2'', ''CD3D'', ''CD3E''|}), (''1'', {|''CD4'', ''CD5'', ''GNLY''|}),
         (''2'', {|''CD7'', ''NKG7''|})]"]
      c f s by simp
qed

subsection \<open>The overlap coefficient\<close>

text \<open>
  Claim C5. For every pair of gene sets \<open>R\<close> (reference) and \<open>D\<close> (data), the
  overlap coefficient computed by \<open>_calc_overlap_coef\<close> is
  \<open>|R \<inter> D| / max(min(|R|, |D|), 1)\<close>: the division never raises, so the whole matrix is
  returned, every entry lies between 0 and 1, and the entry is 0 when either set is empty.
\<close>

theorem overlap_coef_formula_and_range:
  "calc_overlap_coef markers1 markers2 =
     Inr (map (\<lambda>(marker_group, R).
            map (\<lambda>(i, D). of_nat (fcard (R |\<inter>| D)) / of_nat (max (min (fcard R) (fcard D)) 1))
              markers2) markers1)
   \<and> overlap_coef_entry R D =
       Inr (of_nat (fcard (R |\<inter>| D)) / of_nat (max (min (fcard R) (fcard D)) 1))
   \<and> (0::rat) \<le> of_nat (fcard (R |\<inter>| D)) / of_nat (max (min (fcard R) (fcard D)) 1)
   \<and> (of_nat (fcard (R |\<inter>| D)) / of_nat (max (min (fcard R) (fcard D)) 1) :: rat) \<le> 1
   \<and> overlap_coef_entry {||} D = Inr 0
   \<and> overlap_coef_entry R {||} = Inr 0"
proof (intro conjI)
  show "overlap_coef_entry {||} D = Inr 0"
    by (simp add: overlap_coef_entry_eq)
  show "overlap_coef_entry R {||} = Inr 0"
    by (simp add: overlap_coef_entry_eq)
qed (rule calc_overlap_coef_eq overlap_coef_entry_eq coef_range)+

subsection \<open>Both selection parameters\<close>

text \<open>
  Claim C6. When \<open>top_n_markers\<close> and \<open>adj_pval_threshold\<close> are both given, the
  threshold is ignored: the genes of a cluster are its first \<open>n\<close> names (\<open>n\<close> raised
  to 1 and cut to the number of records), for one cluster and for the whole dictionary
  that the loop builds; the call has the outcome and the annotated data of the call
  without a threshold, and the warning of line 157 is logged once the checks have
  passed. For a call that passes the checks on a \<open>rank_genes_groups\<close> result with
  distinct cluster names, the result is that of lines 188 to 222 run on those sets, with
  the warnings of lines 147 to 163 in the log.
\<close>

theorem top_n_markers_takes_precedence:
  "fst (check_thresholds (Some n) (Some t)) = Some (max n 1)
   \<and> warn_both \<in> set (snd (snd (check_thresholds (Some n) (Some t))))
   \<and> select_markers (Some (max n 1)) thr rgg g col
       = Inr (fset_of_list (take (min (nat (max n 1)) (shape0 (names rgg))) col))
   \<and> fst (marker_gene_overlap adata reference_markers key method normalize'
            (Some n) (Some t) key_added)
       = fst (marker_gene_overlap adata reference_markers key method normalize'
            (Some n) None key_added)
   \<and> fst (snd (marker_gene_overlap adata reference_markers key method normalize'
            (Some n) (Some t) key_added))
       = fst (snd (marker_gene_overlap adata reference_markers key method normalize'
            (Some n) None key_added))
   \<and> (check_inputs (uns adata) reference_markers key method normalize' = Inr nrm
        \<longrightarrow> warn_both \<in> set (snd (snd (marker_gene_overlap adata reference_markers key
              method normalize' (Some n) (Some t) key_added))))
   \<and> (distinct (dtype_names (names rgg))
        \<longrightarrow> get_data_markers (RankGenes rgg) (Some (max n 1)) thr =
             Inr ((map (\<lambda>(g, col). (g, fset_of_list
            (take (min (nat (max n 1)) (shape0 (names rgg))) col))) (names rgg)),
                  dtype_names (names rgg)))
   \<and> (check_inputs (uns adata) reference_markers key method normalize' = Inr nrm
          \<and> uns adata key = Some (RankGenes rgg)
          \<and> distinct (dtype_names (names rgg))
        \<longrightarrow> marker_gene_overlap adata reference_markers key method normalize'
              (Some n) (Some t) key_added =
            (case find_overlaps method nrm (map (\<lambda>(k, val). (k, members val)) reference_markers)
                     (map (\<lambda>(g, col). (g, fset_of_list
                        (take (min (nat (max n 1)) (shape0 (names rgg))) col))) (names rgg)) of
               Inl e \<Rightarrow> (Inl e, adata, ((if t < 0 then [Warn ''`adj_pval_threshold` was set below 0. Threshold will be set to 0.''] else [])
                          @ (if 1 < t then [Warn ''`adj_pval_threshold` was set above 1. Threshold will be set to 1.''] else [])
                          @ [warn_both]
                          @ (if n < 1 then [Warn ''`top_n_markers` was set below 1. `top_n_markers` will be set to 1.''] else [])))
             | Inr marker_match \<Rightarrow>
                 (case make_frame marker_match reference_markers
                         (map (\<lambda>(g, col). (g, fset_of_list
                        (take (min (nat (max n 1)) (shape0 (names rgg))) col))) (names rgg))
                         (dtype_names (names rgg)) of
                    Inl e \<Rightarrow> (Inl e, adata, ((if t < 0 then [Warn ''`adj_pval_threshold` was set below 0. Threshold will be set to 0.''] else [])
                          @ (if 1 < t then [Warn ''`adj_pval_threshold` was set above 1. Threshold will be set to 1.''] else [])
                          @ [warn_both]
                          @ (if n < 1 then [Warn ''`top_n_markers` was set below 1. `top_n_markers` will be set to 1.''] else [])))
                  | Inr df \<Rightarrow>
                      (Inr (), adata\<lparr>uns := (uns adata)(key_added \<mapsto> Frame df)\<rparr>,
                       ((if t < 0 then [Warn ''`adj_pval_threshold` was set below 0. Threshold will be set to 0.''] else [])
                          @ (if 1 < t then [Warn ''`adj_pval_threshold` was set above 1. Threshold will be set to 1.''] else [])
                          @ [warn_both]
                          @ (if n < 1 then [Warn ''`top_n_markers` was set below 1. `top_n_markers` will be set to 1.''] else [])) @ [Hint (hint_added key_added)]))))"
proof (intro conjI impI)
  show "select_markers (Some (max n 1)) thr rgg g col
       = Inr (fset_of_list (take (min (nat (max n 1)) (shape0 (names rgg))) col))"
    by (simp only: select_markers_top_n slice_top_n)
  show "fst (marker_gene_overlap adata reference_markers key method normalize'
            (Some n) (Some t) key_added)
       = fst (marker_gene_overlap adata reference_markers key method normalize'
            (Some n) None key_added)"
    using top_n_same_outcome by (rule conjunct1)
  show "fst (snd (marker_gene_overlap adata reference_markers key method normalize'
            (Some n) (Some t) key_added))
       = fst (snd (marker_gene_overlap adata reference_markers key method normalize'
            (Some n) None key_added))"
    using top_n_same_outcome by (rule conjunct2)
  show "fst (check_thresholds (Some n) (Some t)) = Some (max n 1)"
    by (rule check_thresholds_both)
  show "warn_both \<in> set (snd (snd (check_thresholds (Some n) (Some t))))"
    by (rule check_thresholds_both)
next
  assume "check_inputs (uns adata) reference_markers key method normalize' = Inr nrm"
  then show "warn_both \<in> set (snd (snd (marker_gene_overlap adata reference_markers key
              method normalize' (Some n) (Some t) key_added)))"
    by (rule top_n_warning_logged)
next
  assume "distinct (dtype_names (names rgg))"
  then show "get_data_markers (RankGenes rgg) (Some (max n 1)) thr =
             Inr ((map (\<lambda>(g, col). (g, fset_of_list
            (take (min (nat (max n 1)) (shape0 (names rgg))) col))) (names rgg)),
                  dtype_names (names rgg))"
    by (rule get_data_markers_top_n)
next
  assume a: "check_inputs (uns adata) reference_markers key method normalize' = Inr nrm
          \<and> uns adata key = Some (RankGenes rgg)
          \<and> distinct (dtype_names (names rgg))"
  from a have d: "distinct (dtype_names (names rgg))" by simp
  from a have c: "check_inputs (uns adata) reference_markers key method normalize' = Inr nrm"
    by simp
  from a have u: "uns adata key = Some (RankGenes rgg)" by simp
  show "marker_gene_overlap adata reference_markers key method normalize'
              (Some n) (Some t) key_added =
            (case find_overlaps method nrm (map (\<lambda>(k, val). (k, members val)) reference_markers)
                     (map (\<lambda>(g, col). (g, fset_of_list
                        (take (min (nat (max n 1)) (shape0 (names rgg))) col))) (names rgg)) of
               Inl e \<Rightarrow> (Inl e, adata, ((if t < 0 then [Warn ''`adj_pval_threshold` was set below 0. Threshold will be set to 0.''] else [])
                          @ (if 1 < t then [Warn ''`adj_pval_threshold` was set above 1. Threshold will be set to 1.''] else [])
                          @ [warn_both]
                          @ (if n < 1 then [Warn ''`top_n_markers` was set below 1. `top_n_markers` will be set to 1.''] else [])))
             | Inr marker_match \<Rightarrow>
                 (case make_frame marker_match reference_markers
                         (map (\<lambda>(g, col). (g, fset_of_list
                        (take (min (nat (max n 1)) (shape0 (names rgg))) col))) (names rgg))
                         (dtype_names (names rgg)) of
                    Inl e \<Rightarrow> (Inl e, adata, ((if t < 0 then [Warn ''`adj_pval_threshold` was set below 0. Threshold will be set to 0.''] else [])
                          @ (if 1 < t then [Warn ''`adj_pval_threshold` was set above 1. Threshold will be set to 1.''] else [])
                          @ [warn_both]
                          @ (if n < 1 then [Warn ''`top_n_markers` was set below 1. `top_n_markers` will be set to 1.''] else [])))
                  | Inr df \<Rightarrow>
                      (Inr (), adata\<lparr>uns := (uns adata)(key_added \<mapsto> Frame df)\<rparr>,
                       ((if t < 0 then [Warn ''`adj_pval_threshold` was set below 0. Threshold will be set to 0.''] else [])
                          @ (if 1 < t then [Warn ''`adj_pval_threshold` was set above 1. Threshold will be set to 1.''] else [])
                          @ [warn_both]
                          @ (if n < 1 then [Warn ''`top_n_markers` was set below 1. `top_n_markers` will be set to 1.''] else [])) @ [Hint (hint_added key_added)])))"
    using c u check_thresholds_both_eq get_data_markers_top_n [OF d]
    by (rule mgo_after_checks)
qed

theorem top_n_markers_takes_precedence_witness:
  "check_inputs (uns ranked_adata) scenario_reference ''rank_genes_groups''
      (Some ''overlap_count'') None = Inr None
   \<and> distinct (dtype_names (names ranked_rgg))
   \<and> get_data_markers (RankGenes ranked_rgg) (Some 2) (Some (1 / 20))
      = Inr ([(''0'', {|''CD3'', ''CD8''|}), (''1'', {|''CD19'', ''MS4A1''|})], [''0'', ''1''])
   \<and> marker_gene_overlap ranked_adata scenario_reference ''rank_genes_groups''
        (Some ''overlap_count'') None (Some 2) (Some (1 / 20)) ''marker_gene_overlap''
      = (Inr (),
         ranked_adata\<lparr>uns := (uns ranked_adata)(''marker_gene_overlap'' \<mapsto>
            Frame \<lparr>df_values = [[1, 0], [0, 2]], df_index = [''Tcell'', ''Bcell''],
                   df_columns = [''0'', ''1'']\<rparr>)\<rparr>,
         [warn_both, Hint (hint_added ''marker_gene_overlap'')])"
proof -
  have c: "check_inputs (uns ranked_adata) scenario_reference ''rank_genes_groups''
      (Some ''overlap_count'') None = Inr None"
    by (simp add: mgo_eval_defs ranked_adata_def)
  have d: "distinct (dtype_names (names ranked_rgg))"
    by (simp add: ranked_rgg_def dtype_names_def)
  have u: "uns ranked_adata ''rank_genes_groups'' = Some (RankGenes ranked_rgg)"
    by (simp add: ranked_adata_def)
  have f: "find_overlaps (Some ''overlap_count'') None
        [(''Tcell'', {|''CD3'', ''CD4''|}), (''Bcell'', {|''CD19'', ''MS4A1''|})]
        [(''0'', {|''CD3'', ''CD8''|}), (''1'', {|''CD19'', ''MS4A1''|})]
      = Inr (Some [[1, 0], [0, 2]])"
    by code_simp
  show ?thesis
    using top_n_markers_takes_precedence [of 2 "1 / 20" "Some (1 / 20)" ranked_rgg "''0''"
        "[''CD3'', ''CD8'', ''CD4'']" ranked_adata scenario_reference "''rank_genes_groups''"
        "Some ''overlap_count''" None "''marker_gene_overlap''" None] c d u f
    by (simp add: ranked_rgg_def dtype_names_def shape0_def scenario_reference_def
        make_frame_def)
qed

subsection \<open>Selection by adjusted p-value\<close>

text \<open>
  Claim C7. With \<open>adj_pval_threshold = t\<close> alone, \<open>t\<close> is clamped into \<open>[0, 1]\<close> with
  a warning when it was outside, and every cluster receives the first \<open>k\<close> of its names,
  \<open>k\<close> the number of its adjusted p-values strictly below the clamped threshold; a
  cluster with no such p-value receives the empty set, without an error. The cluster
  names are distinct and \<open>pvals_adj\<close> has a field for each of them. A call that passes
  the checks selects with the clamped threshold: its result is that of lines 188 to 222
  run on those sets, with the clamping warnings in the log.
\<close>

theorem pval_threshold_selection:
  assumes "distinct (dtype_names (names rgg))"
    and "\<forall>g \<in> set (dtype_names (names rgg)). map_of (pvals_adj rgg) g \<noteq> None"
  shows "check_thresholds None (Some t) =
       (None, Some (max 0 (min 1 t)),
        (if t < 0
         then [Warn ''`adj_pval_threshold` was set below 0. Threshold will be set to 0.'']
         else [])
        @ (if 1 < t
           then [Warn ''`adj_pval_threshold` was set above 1. Threshold will be set to 1.'']
           else []))
    \<and> get_data_markers (RankGenes rgg) None (Some (max 0 (min 1 t))) =
       Inr (map (\<lambda>(g, col). (g, fset_of_list
                (take (length (filter (\<lambda>p. p < max 0 (min 1 t))
                   (the (map_of (pvals_adj rgg) g)))) col)))
              (names rgg),
            dtype_names (names rgg))
    \<and> (\<forall>g col ps. map_of (pvals_adj rgg) g = Some ps
            \<and> filter (\<lambda>p. p < max 0 (min 1 t)) ps = []
          \<longrightarrow> select_markers None (Some (max 0 (min 1 t))) rgg g col = Inr {||})
    \<and> (check_inputs (uns adata) reference_markers key method normalize' = Inr nrm
          \<and> uns adata key = Some (RankGenes rgg)
        \<longrightarrow> marker_gene_overlap adata reference_markers key method normalize'
              None (Some t) key_added =
            (case find_overlaps method nrm (map (\<lambda>(k, val). (k, members val)) reference_markers)
                     (map (\<lambda>(g, col). (g, fset_of_list
                        (take (length (filter (\<lambda>p. p < max 0 (min 1 t))
                           (the (map_of (pvals_adj rgg) g)))) col))) (names rgg)) of
               Inl e \<Rightarrow> (Inl e, adata, ((if t < 0 then [Warn ''`adj_pval_threshold` was set below 0. Threshold will be set to 0.''] else [])
                          @ (if 1 < t then [Warn ''`adj_pval_threshold` was set above 1. Threshold will be set to 1.''] else [])))
             | Inr marker_match \<Rightarrow>
                 (case make_frame marker_match reference_markers
                         (map (\<lambda>(g, col). (g, fset_of_list
                        (take (length (filter (\<lambda>p. p < max 0 (min 1 t))
                           (the (map_of (pvals_adj rgg) g)))) col))) (names rgg))
                         (dtype_names (names rgg)) of
                    Inl e \<Rightarrow> (Inl e, adata, ((if t < 0 then [Warn ''`adj_pval_threshold` was set below 0. Threshold will be set to 0.''] else [])
                          @ (if 1 < t then [Warn ''`adj_pval_threshold` was set above 1. Threshold will be set to 1.''] else [])))
                  | Inr df \<Rightarrow>
                      (Inr (), adata\<lparr>uns := (uns adata)(key_added \<mapsto> Frame df)\<rparr>,
                       ((if t < 0 then [Warn ''`adj_pval_threshold` was set below 0. Threshold will be set to 0.''] else [])
                          @ (if 1 < t then [Warn ''`adj_pval_threshold` was set above 1. Threshold will be set to 1.''] else [])) @ [Hint (hint_added key_added)]))))"
proof (intro conjI allI impI)
  show "check_thresholds None (Some t) =
       (None, Some (max 0 (min 1 t)),
        (if t < 0
         then [Warn ''`adj_pval_threshold` was set below 0. Threshold will be set to 0.'']
         else [])
        @ (if 1 < t
           then [Warn ''`adj_pval_threshold` was set above 1. Threshold will be set to 1.'']
           else []))"
    by (rule check_thresholds_pval)
  show "get_data_markers (RankGenes rgg) None (Some (max 0 (min 1 t))) =
       Inr (map (\<lambda>(g, col). (g, fset_of_list
                (take (length (filter (\<lambda>p. p < max 0 (min 1 t))
                   (the (map_of (pvals_adj rgg) g)))) col)))
              (names rgg),
            dtype_names (names rgg))"
    using assms by (rule get_data_markers_threshold)
next
  fix g col ps
  assume "map_of (pvals_adj rgg) g = Some ps \<and> filter (\<lambda>p. p < max 0 (min 1 t)) ps = []"
  then show "select_markers None (Some (max 0 (min 1 t))) rgg g col = Inr {||}"
    by (simp add: select_markers_threshold)
next
  assume a: "check_inputs (uns adata) reference_markers key method normalize' = Inr nrm
          \<and> uns adata key = Some (RankGenes rgg)"
  from a have c: "check_inputs (uns adata) reference_markers key method normalize' = Inr nrm"
    by simp
  from a have u: "uns adata key = Some (RankGenes rgg)" by simp
  show "marker_gene_overlap adata reference_markers key method normalize'
              None (Some t) key_added =
            (case find_overlaps method nrm (map (\<lambda>(k, val). (k, members val)) reference_markers)
                     (map (\<lambda>(g, col). (g, fset_of_list
                        (take (length (filter (\<lambda>p. p < max 0 (min 1 t))
                           (the (map_of (pvals_adj rgg) g)))) col))) (names rgg)) of
               Inl e \<Rightarrow> (Inl e, adata, ((if t < 0 then [Warn ''`adj_pval_threshold` was set below 0. Threshold will be set to 0.''] else [])
                          @ (if 1 < t then [Warn ''`adj_pval_threshold` was set above 1. Threshold will be set to 1.''] else [])))
             | Inr marker_match \<Rightarrow>
                 (case make_frame marker_match reference_markers
                         (map (\<lambda>(g, col). (g, fset_of_list
                        (take (length (filter (\<lambda>p. p < max 0 (min 1 t))
                           (the (map_of (pvals_adj rgg) g)))) col))) (names rgg))
                         (dtype_names (names rgg)) of
                    Inl e \<Rightarrow> (Inl e, adata, ((if t < 0 then [Warn ''`adj_pval_threshold` was set below 0. Threshold will be set to 0.''] else [])
                          @ (if 1 < t then [Warn ''`adj_pval_threshold` was set above 1. Threshold will be set to 1.''] else [])))
                  | Inr df \<Rightarrow>
                      (Inr (), adata\<lparr>uns := (uns adata)(key_added \<mapsto> Frame df)\<rparr>,
                       ((if t < 0 then [Warn ''`adj_pval_threshold` was set below 0. Threshold will be set to 0.''] else [])
                          @ (if 1 < t then [Warn ''`adj_pval_threshold` was set above 1. Threshold will be set to 1.''] else [])) @ [Hint (hint_added key_added)])))"
    using c u check_thresholds_pval get_data_markers_threshold [OF assms]
    by (rule mgo_after_checks)
qed

theorem pval_threshold_selection_witness:
  "distinct (dtype_names (names scenario_rgg))
   \<and> check_thresholds None (Some (3 / 2)) =
       (None, Some 1,
        [Warn ''`adj_pval_threshold` was set above 1. Threshold will be set to 1.''])
   \<and> get_data_markers (RankGenes scenario_rgg) None (Some 1) =
       Inr ([(''0'', {|''CD3'', ''CD8''|}), (''1'', {||})], [''0'', ''1''])
   \<and> marker_gene_overlap scenario_adata scenario_reference ''rank_genes_groups''
        (Some ''overlap_count'') None None (Some (3 / 2)) ''marker_gene_overlap''
      = (Inr (),
         scenario_adata\<lparr>uns := (uns scenario_adata)(''marker_gene_overlap'' \<mapsto>
            Frame \<lparr>df_values = [[1, 0], [0, 0]], df_index = [''Tcell'', ''Bcell''],
                   df_columns = [''0'', ''1'']\<rparr>)\<rparr>,
         [Warn ''`adj_pval_threshold` was set above 1. Threshold will be set to 1.'',
          Hint (hint_added ''marker_gene_overlap'')])"
proof -
  have d: "distinct (dtype_names (names scenario_rgg))"
    by (simp add: scenario_rgg_def dtype_names_def)
  have f: "\<forall>g \<in> set (dtype_names (names scenario_rgg)).
             map_of (pvals_adj scenario_rgg) g \<noteq> None"
    by (simp add: scenario_rgg_def dtype_names_def)
  have c: "check_inputs (uns scenario_adata) scenario_reference ''rank_genes_groups''
      (Some ''overlap_count'') None = Inr None"
    by (simp add: mgo_eval_defs)
  have u: "uns scenario_adata ''rank_genes_groups'' = Some (RankGenes scenario_rgg)"
    by (simp add: scenario_adata_def)
  have o: "find_overlaps (Some ''overlap_count'') None
        [(''Tcell'', {|''CD3'', ''CD4''|}), (''Bcell'', {|''CD19'', ''MS4A1''|})]
        [(''0'', {|''CD3'', ''CD8''|}), (''1'', {||})]
      = Inr (Some [[1, 0], [0, 0]])"
    by code_simp
  show ?thesis
    using pval_threshold_selection [OF d f, of "3 / 2" scenario_adata scenario_reference
        "''rank_genes_groups''" "Some ''overlap_count''" None None "''marker_gene_overlap''"]
      d c u o
    by (simp add: scenario_rgg_def dtype_names_def scenario_reference_def make_frame_def)
qed

subsection \<open>Jaccard index against overlap coefficient\<close>

text \<open>
  Claim C8. For gene sets \<open>R\<close> and \<open>D\<close> that are not both empty, the Jaccard index is
  defined and is at most the overlap coefficient; and whenever \<open>_calc_jaccard\<close> returns
  a matrix, it is entrywise at most the matrix of \<open>_calc_overlap_coef\<close>.
\<close>

theorem jaccard_le_overlap_coef:
  "(R \<noteq> {||} \<or> D \<noteq> {||} \<longrightarrow>
      (\<exists>jv cv. jaccard_entry R D = Inr jv \<and> overlap_coef_entry R D = Inr cv \<and> jv \<le> cv))
   \<and> (calc_jaccard markers1 markers2 = Inr J \<longrightarrow>
      (\<exists>C. calc_overlap_coef markers1 markers2 = Inr C \<and> list_all2 (list_all2 (\<le>)) J C))"
proof (intro conjI impI)
  assume ne: "R \<noteq> {||} \<or> D \<noteq> {||}"
  show "\<exists>jv cv. jaccard_entry R D = Inr jv \<and> overlap_coef_entry R D = Inr cv \<and> jv \<le> cv"
    using jaccard_entry_eq [OF ne] overlap_coef_entry_eq [of R D] jaccard_le_coef [OF ne]
    by simp
next
  assume "calc_jaccard markers1 markers2 = Inr J"
  then show "\<exists>C. calc_overlap_coef markers1 markers2 = Inr C \<and> list_all2 (list_all2 (\<le>)) J C"
    using jaccard_matrix_le calc_overlap_coef_eq by blast
qed

theorem jaccard_le_overlap_coef_witness:
  "{|''CD3'', ''CD4''|} \<noteq> ({||} :: string fset)
   \<and> jaccard_entry {|''CD3'', ''CD4''|} {|''CD3'', ''CD8''|} = Inr (1 / 3)
   \<and> overlap_coef_entry {|''CD3'', ''CD4''|} {|''CD3'', ''CD8''|} = Inr (1 / 2)
   \<and> calc_jaccard [(''Tcell'', {|''CD3'', ''CD4''|})] [(''0'', {|''CD3'', ''CD8''|})] = Inr [[1 / 3]]
   \<and> (\<exists>C. calc_overlap_coef [(''Tcell'', {|''CD3'', ''CD4''|})] [(''0'', {|''CD3'', ''CD8''|})] = Inr C
          \<and> list_all2 (list_all2 (\<le>)) [[1 / 3]] C)"
proof -
  have j: "jaccard_entry {|''CD3'', ''CD4''|} {|''CD3'', ''CD8''|} = Inr (1 / 3)"
    by code_simp
  have c: "overlap_coef_entry {|''CD3'', ''CD4''|} {|''CD3'', ''CD8''|} = Inr (1 / 2)"
    by code_simp
  have m: "calc_jaccard [(''Tcell'', {|''CD3'', ''CD4''|})] [(''0'', {|''CD3'', ''CD8''|})] = Inr [[1 / 3]]"
    by (simp add: calc_jaccard_def j)
  show ?thesis
    using jaccard_le_overlap_coef [of "{|''CD3'', ''CD4''|}" "{|''CD3'', ''CD8''|}"
        "[(''Tcell'', {|''CD3'', ''CD4''|})]" "[(''0'', {|''CD3'', ''CD8''|})]" "[[1 / 3]]"]
      j c m by simp
qed

subsection \<open>Failures and the result sink\<close>

text \<open>
  Claim C9. The checks of the inputs (key present, method available, normalisation
  legal, reference values sets) come first: when one fails, the call fails with its
  error, logs nothing and computes nothing. Whatever fails, \<open>adata\<close> is unchanged; a
  call that returns has written exactly one entry, a data frame under \<open>key_added\<close>.
\<close>

theorem failures_leave_result_sink_unchanged:
  "(check_inputs (uns adata) reference_markers key method normalize' = Inl e
      \<longrightarrow> marker_gene_overlap adata reference_markers key method normalize' top_n_markers
            adj_pval_threshold key_added = (Inl e, adata, []))
   \<and> (check_inputs (uns adata) reference_markers key method normalize' = Inr nrm
      \<longrightarrow> uns adata key \<noteq> None \<and> method \<in> Some ` set avail_methods
          \<and> nrm \<in> set avail_norm \<and> (nrm \<noteq> None \<longrightarrow> method = Some ''overlap_count'')
          \<and> list_all is_set (map snd reference_markers))
   \<and> (fst (marker_gene_overlap adata reference_markers key method normalize' top_n_markers
            adj_pval_threshold key_added) = Inl e'
      \<longrightarrow> fst (snd (marker_gene_overlap adata reference_markers key method normalize'
            top_n_markers adj_pval_threshold key_added)) = adata)
   \<and> (fst (marker_gene_overlap adata reference_markers key method normalize' top_n_markers
            adj_pval_threshold key_added) = Inr u
      \<longrightarrow> (\<exists>df. fst (snd (marker_gene_overlap adata reference_markers key method normalize'
            top_n_markers adj_pval_threshold key_added))
              = adata\<lparr>uns := (uns adata)(key_added \<mapsto> Frame df)\<rparr>))"
  using mgo_check_fails [of adata reference_markers key "method" normalize' e]
    check_inputs_Inr_D [of "uns adata" reference_markers key "method" normalize' nrm]
    mgo_failure_unchanged [of adata reference_markers key "method" normalize' top_n_markers
      adj_pval_threshold key_added e']
    mgo_success_writes [of adata reference_markers key "method" normalize' top_n_markers
      adj_pval_threshold key_added u]
  by blast

theorem failures_leave_result_sink_unchanged_witness:
  "marker_gene_overlap scenario_adata scenario_reference ''rank_genes_groups''
       (Some ''cosine'') None None None ''marker_gene_overlap''
     = (Inl (ValueError ''Method must be one of {}.''), scenario_adata, [])
   \<and> marker_gene_overlap scenario_adata empty_reference ''rank_genes_groups''
       (Some ''jaccard'') None None (Some (- 1)) ''marker_gene_overlap''
     = (Inl (ZeroDivisionError ''division by zero''), scenario_adata,
        [Warn ''`adj_pval_threshold` was set below 0. Threshold will be set to 0.''])
   \<and> marker_gene_overlap scenario_adata scenario_reference ''rank_genes_groups''
       (Some ''overlap_count'') None None None ''marker_gene_overlap''
     = (Inr (),
        scenario_adata\<lparr>uns := (uns scenario_adata)(''marker_gene_overlap'' \<mapsto>
           Frame \<lparr>df_values = [[1, 0], [0, 2]], df_index = [''Tcell'', ''Bcell''],
                  df_columns = [''0'', ''1'']\<rparr>)\<rparr>,
        [Hint (hint_added ''marker_gene_overlap'')])"
proof -
  have a: "marker_gene_overlap scenario_adata scenario_reference ''rank_genes_groups''
       (Some ''cosine'') None None None ''marker_gene_overlap''
     = (Inl (ValueError ''Method must be one of {}.''), scenario_adata, [])"
    by (simp add: mgo_eval_defs)
  have b: "marker_gene_overlap scenario_adata empty_reference ''rank_genes_groups''
       (Some ''jaccard'') None None (Some (- 1)) ''marker_gene_overlap''
     = (Inl (ZeroDivisionError ''division by zero''), scenario_adata,
        [Warn ''`adj_pval_threshold` was set below 0. Threshold will be set to 0.''])"
    by (simp add: mgo_eval_defs calc_jaccard_def jaccard_entry_def py_truediv_def)
  have c: "marker_gene_overlap scenario_adata scenario_reference ''rank_genes_groups''
       (Some ''overlap_count'') None None None ''marker_gene_overlap''
     = (Inr (),
        scenario_adata\<lparr>uns := (uns scenario_adata)(''marker_gene_overlap'' \<mapsto>
           Frame \<lparr>df_values = [[1, 0], [0, 2]], df_index = [''Tcell'', ''Bcell''],
                  df_columns = [''0'', ''1'']\<rparr>)\<rparr>,
        [Hint (hint_added ''marker_gene_overlap'')])"
    by (simp add: mgo_eval_defs calc_overlap_count_def fcard_finsert_if fcard_fempty)
  show ?thesis
    using failures_leave_result_sink_unchanged [of scenario_adata scenario_reference
        "''rank_genes_groups''" "Some ''cosine''" None
        "ValueError ''Method must be one of {}.''" None None "''marker_gene_overlap''"
        None "ValueError ''Method must be one of {}.''" "()"]
      failures_leave_result_sink_unchanged [of scenario_adata empty_reference
        "''rank_genes_groups''" "Some ''jaccard''" None
        "ValueError []" None "Some (- 1)" "''marker_gene_overlap''"
        None "ZeroDivisionError ''division by zero''" "()"]
      failures_leave_result_sink_unchanged [of scenario_adata scenario_reference
        "''rank_genes_groups''" "Some ''overlap_count''" None
        "ValueError []" None None "''marker_gene_overlap''"
        None "ValueError []" "()"]
      a b c
    by simp
qed

subsection \<open>The string \<open>'None'\<close> for \<open>normalize\<close>\<close>

text \<open>
  Claim C10. The argument \<open>normalize='None'\<close> (the string) is accepted and treated as
  the value \<open>None\<close>: the checks give the same verdict as for \<open>None\<close>, never the error
  of line 136, and pass whenever the key is present, the method available and the
  reference values sets; the whole call has the same outcome, the same annotated data and
  the same log as the call with \<open>None\<close>.
\<close>

theorem normalize_None_string_is_None:
  "check_inputs (uns adata) reference_markers key method (Some ''None'')
     = check_inputs (uns adata) reference_markers key method None
   \<and> marker_gene_overlap adata reference_markers key method (Some ''None'')
         top_n_markers adj_pval_threshold key_added
     = marker_gene_overlap adata reference_markers key method None
         top_n_markers adj_pval_threshold key_added
   \<and> check_inputs (uns adata) reference_markers key method (Some ''None'')
       \<noteq> Inl (ValueError ''Normalize must be one of {}.'')
   \<and> (uns adata key \<noteq> None \<and> method \<in> Some ` set avail_methods
         \<and> list_all is_set (map snd reference_markers)
       \<longrightarrow> check_inputs (uns adata) reference_markers key method (Some ''None'') = Inr None)"
  by (simp add: marker_gene_overlap_def check_inputs_def avail_norm_def)

theorem normalize_None_string_is_None_witness:
  "check_inputs (uns scenario_adata) scenario_reference ''rank_genes_groups''
      (Some ''overlap_count'') (Some ''None'') = Inr None
   \<and> marker_gene_overlap scenario_adata scenario_reference ''rank_genes_groups''
        (Some ''overlap_count'') (Some ''None'') None None ''marker_gene_overlap''
      = (Inr (),
         scenario_adata\<lparr>uns := (uns scenario_adata)(''marker_gene_overlap'' \<mapsto>
            Frame \<lparr>df_values = [[1, 0], [0, 2]], df_index = [''Tcell'', ''Bcell''],
                   df_columns = [''0'', ''1'']\<rparr>)\<rparr>,
         [Hint (hint_added ''marker_gene_overlap'')])"
proof -
  have m: "marker_gene_overlap scenario_adata scenario_reference ''rank_genes_groups''
        (Some ''overlap_count'') None None None ''marker_gene_overlap''
      = (Inr (),
         scenario_adata\<lparr>uns := (uns scenario_adata)(''marker_gene_overlap'' \<mapsto>
            Frame \<lparr>df_values = [[1, 0], [0, 2]], df_index = [''Tcell'', ''Bcell''],
                   df_columns = [''0'', ''1'']\<rparr>)\<rparr>,
         [Hint (hint_added ''marker_gene_overlap'')])"
    by (simp add: mgo_eval_defs calc_overlap_count_def fcard_finsert_if fcard_fempty)
  have c: "check_inputs (uns scenario_adata) scenario_reference ''rank_genes_groups''
      (Some ''overlap_count'') None = Inr None"
    by (simp add: mgo_eval_defs)
  show ?thesis
    using normalize_None_string_is_None [of scenario_adata scenario_reference
        "''rank_genes_groups''" "Some ''overlap_count''" None None "''marker_gene_overlap''"]
      m c
    by simp
qed

end
